theory Spec2Isabelle
  imports Main "HOL-Library.Word" "HOL-Library.Signed_Division" "HOL-Library.Log_Nat"
begin

unbundle bit_operations_syntax

section \<open>JavaScript numbers as used by the debugger\<close>

text \<open>
  The debugger computes with JavaScript numbers that hold integers.  The bitwise
  operators first convert their operands to signed 32-bit integers and deliver a signed
  32-bit integer; \<open>+\<close> and \<open>==\<close> on addresses are the unbounded ones.
\<close>

definition toInt32 :: "int \<Rightarrow> int" where
  "toInt32 x = sint (word_of_int x :: 32 word)"

definition js_and :: "int \<Rightarrow> int \<Rightarrow> int" where
  "js_and a b = sint ((word_of_int a :: 32 word) AND word_of_int b)"

definition js_or :: "int \<Rightarrow> int \<Rightarrow> int" where
  "js_or a b = sint ((word_of_int a :: 32 word) OR word_of_int b)"

definition js_not :: "int \<Rightarrow> int" where
  "js_not a = sint (NOT (word_of_int a :: 32 word))"

definition js_shl :: "int \<Rightarrow> nat \<Rightarrow> int" where
  "js_shl a n = sint (push_bit (n mod 32) (word_of_int a :: 32 word))"

definition js_sar :: "int \<Rightarrow> nat \<Rightarrow> int" where
  "js_sar a n = sint (signed_drop_bit (n mod 32) (word_of_int a :: 32 word))"

text \<open>\<open>x >>> 0\<close>: the operand read as an unsigned 32-bit integer.\<close>

definition js_ushr0 :: "int \<Rightarrow> int" where
  "js_ushr0 a = uint (word_of_int a :: 32 word)"

section \<open>Addresses, segments and the machine\<close>

text \<open>
  Modelled from the spec: \<open>X86.ADDR_INVALID\<close> (x86.js is not among the sources), the
  reserved sentinel that \<open>getAddr\<close> returns for an address that cannot be resolved.  It
  is a number (\<open>getAddr\<close> returns a number); \<open>parseAddr\<close> documents that, masked with
  the bus limit, it refers to the top of the physical address space, so all its bits
  are set.
\<close>

definition ADDR_INVALID :: int where
  "ADDR_INVALID = -1"

text \<open>
  A \<open>DbgAddr\<close> object.  \<open>None\<close> stands for JavaScript's \<open>null\<close> and \<open>undefined\<close>,
  which the code does not tell apart (\<open>== null\<close>).  The code updates these objects in
  place; every operation of the model returns the updated record.
\<close>

record DbgAddr =
  off :: int
  sel :: "int option"
  addr :: "int option"
  fProt :: "bool option"
  fTempBreak :: bool
  fData32 :: bool
  fAddr32 :: bool
  cOverrides :: "nat option"
  fComplete :: "bool option"

text \<open>
  The segment registers (class \<open>X86Seg\<close>) and the CPU are collaborators whose code is
  not part of the debugger; the model takes what the debugger reads from them as
  fields.  \<open>checkRead seg o n\<close> is \<open>seg.checkRead(o, n, true)\<close>: the linear address,
  or \<open>ADDR_INVALID\<close>.  \<open>protMode\<close> is the value of
  \<open>(regCR0 & X86.CR0.MSW.PE) && !(regPS & X86.PS.VM)\<close>, \<open>fChecksum\<close> is
  \<open>aFlags.fChecksum\<close> and \<open>nChecksum\<close> is \<open>aCounts.nChecksum\<close>.
\<close>

record X86Seg =
  checkRead :: "int \<Rightarrow> int \<Rightarrow> int"
  checkWrite :: "int \<Rightarrow> int \<Rightarrow> int"
  addrMask :: int
  offMax :: int
  dataSize :: int
  addrSize :: int

record X86CPU =
  protMode :: bool
  model :: int
  getCS :: int
  getDS :: int
  getES :: int
  getSS :: int
  getFS :: int
  getGS :: int
  segCS :: X86Seg
  segDS :: X86Seg
  segES :: X86Seg
  segSS :: X86Seg
  segFS :: X86Seg
  segGS :: X86Seg
  probeAddr :: "int \<Rightarrow> int"
  fChecksum :: bool
  getCycles :: int
  nChecksum :: int

text \<open>
  A breakpoint array: element 0 is the tag (\<open>"exec"\<close>, \<open>"read"\<close>, \<open>"write"\<close>), the
  breakpoints follow.  \<open>blength\<close> is the array's \<open>length\<close>.
\<close>

record BreakArray =
  tag :: string
  entries :: "DbgAddr list"

definition blength :: "BreakArray \<Rightarrow> nat" where
  "blength aBreak = Suc (length (entries aBreak))"

datatype BreakKind = Exec | Read | Write

text \<open>
  The debugger object.  \<open>I386\<close> and \<open>DEBUG\<close> are the build's compile-time flags.
  \<open>loadReal s\<close> and \<open>loadProt s\<close> are the debugger's own segment register
  \<open>segDebugger\<close> after \<open>segDebugger.loadReal(s, true)\<close> and
  \<open>segDebugger.loadProt(s, true)\<close>; \<open>initBus\<close> allocates \<open>segDebugger\<close>
  unconditionally, so it is always there.  \<open>messageEnabled\<close> is the method inherited
  from \<open>Component\<close>, \<open>MessagesINT\<close> and \<open>MessagesHALT\<close> the category bits
  \<open>Messages.INT\<close> and \<open>Messages.HALT\<close>.  \<open>busBreaks\<close> records the calls made to the bus:
  \<open>(True, a, w)\<close> for \<open>addMemBreak(a, w)\<close> and \<open>(False, a, w)\<close> for
  \<open>removeMemBreak(a, w)\<close>.  Console output is not modelled, except for the lines of
  \<open>historyInit\<close>.  \<open>findSymbolAtAddr d\<close> is the first element of the symbol
  table's answer for \<open>d\<close> (its binary search lives outside the debugger), the empty
  string when there is none.
\<close>

record Debugger =
  cpu :: X86CPU
  I386 :: bool
  DEBUG :: bool
  loadReal :: "int option \<Rightarrow> X86Seg"
  loadProt :: "int option \<Rightarrow> X86Seg"
  nSuppressBreaks :: int
  maskAddr :: int
  messageEnabled :: "int \<Rightarrow> bool"
  MessagesINT :: int
  MessagesHALT :: int
  aBreakExec :: BreakArray
  aBreakRead :: BreakArray
  aBreakWrite :: BreakArray
  busBreaks :: "(bool \<times> int \<times> bool) list"
  aOpcodeHistory :: "DbgAddr list"
  iOpcodeHistory :: nat
  aaOpcodeCounts :: "(nat \<times> nat) list"
  printed :: "string list"
  findSymbolAtAddr :: "DbgAddr \<Rightarrow> string"

definition MODEL_80386 :: int where
  "MODEL_80386 = 80386"

definition getProtMode :: "Debugger \<Rightarrow> bool" where
  "getProtMode D = protMode (cpu D)"

definition getSegment :: "Debugger \<Rightarrow> int option \<Rightarrow> bool option \<Rightarrow> X86Seg option" where
  "getSegment D s fProt0 =
     (let fProtMode = getProtMode D;
          fProt1 = (case fProt0 of None \<Rightarrow> fProtMode | Some b \<Rightarrow> b);
          c = cpu D;
          own = Some (if \<not> fProt1 then loadReal D s else loadProt D s)
      in if fProt1 = fProtMode then
           if s = Some (getCS c) then Some (segCS c)
           else if s = Some (getDS c) then Some (segDS c)
           else if s = Some (getES c) then Some (segES c)
           else if s = Some (getSS c) then Some (segSS c)
           else if I386 D \<and> model c \<ge> MODEL_80386 \<and> s = Some (getFS c) then Some (segFS c)
           else if I386 D \<and> model c \<ge> MODEL_80386 \<and> s = Some (getGS c) then Some (segGS c)
           else if nSuppressBreaks D \<noteq> 0 \<and> fProt1 then None
           else own
         else own)"

text \<open>\<open>nb\<close> is 1, 2 or 4; 0 stands for an omitted argument (\<open>nb || 1\<close>).\<close>

definition getAddr :: "Debugger \<Rightarrow> DbgAddr \<Rightarrow> bool \<Rightarrow> nat \<Rightarrow> int \<times> DbgAddr" where
  "getAddr D dbgAddr fWrite nb =
     (case addr dbgAddr of
        Some a \<Rightarrow> (a, dbgAddr)
      | None \<Rightarrow>
         (case getSegment D (sel dbgAddr) (fProt dbgAddr) of
            None \<Rightarrow> (ADDR_INVALID, dbgAddr)
          | Some seg \<Rightarrow>
              let n = (if nb = 0 then 1 else int nb);
                  a = (if \<not> fWrite then checkRead seg (off dbgAddr) n
                       else checkWrite seg (off dbgAddr) n)
              in (a, dbgAddr\<lparr>addr := Some a\<rparr>)))"

definition checkLimit :: "Debugger \<Rightarrow> DbgAddr \<Rightarrow> DbgAddr" where
  "checkLimit D dbgAddr =
     (if sel dbgAddr \<noteq> None then
        (case getSegment D (sel dbgAddr) (fProt dbgAddr) of
           None \<Rightarrow> dbgAddr
         | Some seg \<Rightarrow>
             let d1 = dbgAddr\<lparr>off := js_and (off dbgAddr) (addrMask seg)\<rparr>
             in if js_ushr0 (off d1) \<ge> offMax seg
                then d1\<lparr>off := 0, addr := None\<rparr> else d1)
      else dbgAddr)"

definition incAddr :: "Debugger \<Rightarrow> DbgAddr \<Rightarrow> int \<Rightarrow> DbgAddr" where
  "incAddr D dbgAddr inc0 =
     (let inc = (if inc0 = 0 then 1 else inc0);
          d1 = (case addr dbgAddr of None \<Rightarrow> dbgAddr
                | Some a \<Rightarrow> dbgAddr\<lparr>addr := Some (a + inc)\<rparr>)
      in if sel d1 \<noteq> None then checkLimit D (d1\<lparr>off := off d1 + inc\<rparr>) else d1)"

text \<open>
  The read functions return the value read and the updated address.  \<open>inc\<close> is the
  number of bytes to advance by; 0 stands for an omitted argument.
\<close>

definition getByte :: "Debugger \<Rightarrow> DbgAddr \<Rightarrow> int \<Rightarrow> int \<times> DbgAddr" where
  "getByte D dbgAddr inc =
     (let (a, d1) = getAddr D dbgAddr False 1
      in if a \<noteq> ADDR_INVALID then
           (js_or (probeAddr (cpu D) a) 0, if inc \<noteq> 0 then incAddr D d1 inc else d1)
         else (0xff, d1))"

definition getShort :: "Debugger \<Rightarrow> DbgAddr \<Rightarrow> int \<Rightarrow> int \<times> DbgAddr" where
  "getShort D dbgAddr inc =
     (let (a, d1) = getAddr D dbgAddr False 2
      in if a \<noteq> ADDR_INVALID then
           (js_or (probeAddr (cpu D) a) (js_shl (probeAddr (cpu D) (a + 1)) 8),
            if inc \<noteq> 0 then incAddr D d1 inc else d1)
         else (0xffff, d1))"

definition getLong :: "Debugger \<Rightarrow> DbgAddr \<Rightarrow> int \<Rightarrow> int \<times> DbgAddr" where
  "getLong D dbgAddr inc =
     (let (a, d1) = getAddr D dbgAddr False 4
      in if a \<noteq> ADDR_INVALID then
           (js_or (js_or (js_or (probeAddr (cpu D) a) (js_shl (probeAddr (cpu D) (a + 1)) 8))
                         (js_shl (probeAddr (cpu D) (a + 2)) 16))
                  (js_shl (probeAddr (cpu D) (a + 3)) 24),
            if inc \<noteq> 0 then incAddr D d1 inc else d1)
         else (-1, d1))"

definition getWord :: "Debugger \<Rightarrow> DbgAddr \<Rightarrow> bool \<Rightarrow> int \<times> DbgAddr" where
  "getWord D dbgAddr fAdvance =
     (if \<not> fData32 dbgAddr then getShort D dbgAddr (if fAdvance then 2 else 0)
      else getLong D dbgAddr (if fAdvance then 4 else 0))"

text \<open>\<open>newAddr\<close>: an omitted \<open>off\<close> is 0; omitted flags take the CPU's current values.\<close>

definition newAddr :: "Debugger \<Rightarrow> int \<Rightarrow> int option \<Rightarrow> int option \<Rightarrow> bool option \<Rightarrow>
    bool option \<Rightarrow> bool option \<Rightarrow> DbgAddr" where
  "newAddr D offset s a fProt0 fData0 fAddr0 =
     \<lparr>off = offset, sel = s, addr = a,
      fProt = Some (case fProt0 of None \<Rightarrow> getProtMode D | Some b \<Rightarrow> b),
      fTempBreak = False,
      fData32 = (case fData0 of None \<Rightarrow> dataSize (segCS (cpu D)) = 4 | Some b \<Rightarrow> b),
      fAddr32 = (case fAddr0 of None \<Rightarrow> addrSize (segCS (cpu D)) = 4 | Some b \<Rightarrow> b),
      cOverrides = None, fComplete = None\<rparr>"

section \<open>History and frequency tracking\<close>

definition HISTORY_LIMIT :: nat where
  "HISTORY_LIMIT = 100000"

definition checksEnabled :: "Debugger \<Rightarrow> bool \<Rightarrow> bool" where
  "checksEnabled D fRelease =
     (if DEBUG D \<and> \<not> fRelease then True
      else (blength (aBreakExec D) > 1 \<or> messageEnabled D (MessagesINT D)))"

text \<open>An array that is \<open>undefined\<close> or empty is the empty list.\<close>

definition historyInit :: "Debugger \<Rightarrow> Debugger" where
  "historyInit D =
     (if \<not> checksEnabled D False then
        D\<lparr>printed := printed D @
               (if aOpcodeHistory D \<noteq> [] then [''instruction history buffer freed''] else []),
          iOpcodeHistory := 0, aOpcodeHistory := [], aaOpcodeCounts := []\<rparr>
      else
        let D1 = (if aOpcodeHistory D = [] then
                    D\<lparr>aOpcodeHistory :=
                        replicate HISTORY_LIMIT (newAddr D 0 None None None None None),
                      iOpcodeHistory := 0,
                      printed := printed D @ [''instruction history buffer allocated'']\<rparr>
                  else D)
        in if aaOpcodeCounts D1 = [] then
             D1\<lparr>aaOpcodeCounts := map (\<lambda>i. (i, 0)) [0..<256]\<rparr>
           else D1)"

section \<open>Breakpoints\<close>

definition getBreak :: "Debugger \<Rightarrow> BreakKind \<Rightarrow> BreakArray" where
  "getBreak D k = (case k of Exec \<Rightarrow> aBreakExec D | Read \<Rightarrow> aBreakRead D | Write \<Rightarrow> aBreakWrite D)"

definition setEntries :: "Debugger \<Rightarrow> BreakKind \<Rightarrow> DbgAddr list \<Rightarrow> Debugger" where
  "setEntries D k es =
     (case k of
        Exec \<Rightarrow> D\<lparr>aBreakExec := (aBreakExec D)\<lparr>entries := es\<rparr>\<rparr>
      | Read \<Rightarrow> D\<lparr>aBreakRead := (aBreakRead D)\<lparr>entries := es\<rparr>\<rparr>
      | Write \<Rightarrow> D\<lparr>aBreakWrite := (aBreakWrite D)\<lparr>entries := es\<rparr>\<rparr>)"

definition mapBreakpoint :: "Debugger \<Rightarrow> int \<Rightarrow> int" where
  "mapBreakpoint D a =
     (if a \<noteq> ADDR_INVALID then
        let mask = js_and (maskAddr D) (js_not 0xffff)
        in if js_and a mask = mask then js_and a 0x000fffff else a
      else a)"

text \<open>
  The scan of \<open>findBreakpoint\<close> over the breakpoints (indices 1, 2, ...).  \<open>a\<close> is
  the mapped linear address of \<open>dbgAddr\<close>.  The result says whether a match was found
  and gives the breakpoints afterwards: \<open>getAddr\<close> caches the linear address in every
  breakpoint it is asked about, and with \<open>fRemove\<close> the match is spliced out.
\<close>

fun findScan :: "Debugger \<Rightarrow> bool \<Rightarrow> int \<Rightarrow> DbgAddr \<Rightarrow> DbgAddr list \<Rightarrow> bool \<times> DbgAddr list" where
  "findScan D fRemove a dbgAddr [] = (False, [])"
| "findScan D fRemove a dbgAddr (dbgAddrBreak # rest) =
     (let (hit, e1) =
            (if a \<noteq> ADDR_INVALID then
               (let (ab, e') = getAddr D dbgAddrBreak False 0
                in (a = mapBreakpoint D ab, e'))
             else (sel dbgAddr = sel dbgAddrBreak \<and> off dbgAddr = off dbgAddrBreak,
                   dbgAddrBreak))
      in if hit then (True, if fRemove then rest else e1 # rest)
         else (let (found, rest') = findScan D fRemove a dbgAddr rest
               in (found, e1 # rest')))"

definition findBreakpoint :: "Debugger \<Rightarrow> BreakKind \<Rightarrow> DbgAddr \<Rightarrow> bool \<Rightarrow> bool \<times> Debugger \<times> DbgAddr" where
  "findBreakpoint D k dbgAddr fRemove =
     (let (a0, d1) = getAddr D dbgAddr False 0;
          a = mapBreakpoint D a0;
          (fFound, es) = findScan D fRemove a d1 (entries (getBreak D k));
          D1 = setEntries D k es
      in if fFound \<and> fRemove then
           (True,
            historyInit (if k \<noteq> Exec
                         then D1\<lparr>busBreaks := busBreaks D1 @ [(False, a, k = Write)]\<rparr>
                         else D1),
            d1)
         else (fFound, D1, d1))"

text \<open>
  \<open>addBreakpoint\<close> pushes the object \<open>dbgAddr\<close> itself, so the later update of its
  selector shows in the array: the breakpoint appended is the object's final state.
  \<open>if (dbgAddr.addr)\<close> holds for a number other than 0.
\<close>

definition addBreakpoint :: "Debugger \<Rightarrow> BreakKind \<Rightarrow> DbgAddr \<Rightarrow> bool \<Rightarrow> bool \<times> Debugger \<times> DbgAddr" where
  "addBreakpoint D k dbgAddr fTemp =
     (let D1 = D\<lparr>nSuppressBreaks := nSuppressBreaks D + 1\<rparr>;
          (fFound, D2, d1) = findBreakpoint D1 k dbgAddr False
      in if \<not> fFound then
           (let d2 = d1\<lparr>fTempBreak := fTemp\<rparr>;
                (D3, d3) =
                  (if k \<noteq> Exec then
                     (let (a, d') = getAddr D2 d2 False 0
                      in (D2\<lparr>busBreaks := busBreaks D2 @ [(True, a, k = Write)]\<rparr>, d'))
                   else (D2, d2));
                d4 = (if fTemp \<and> addr d3 \<noteq> None \<and> addr d3 \<noteq> Some 0
                      then d3\<lparr>sel := None\<rparr> else d3);
                D4 = setEntries D3 k (entries (getBreak D3 k) @ [d4]);
                D5 = (if \<not> fTemp then historyInit D4 else D4)
            in (True, D5\<lparr>nSuppressBreaks := nSuppressBreaks D5 - 1\<rparr>, d4))
         else (False, D2\<lparr>nSuppressBreaks := nSuppressBreaks D2 - 1\<rparr>, d1))"

text \<open>
  The inner loop of \<open>checkBreakpoint\<close>:
  \<open>for (n = 0; n < nb; n++) { if (addr + n == addrBreak) {...; break;} addrBreak++; n++; }\<close>.
  An iteration that does not match increments \<open>n\<close> twice, in the body and in the
  loop header.
\<close>

function byteScan :: "int \<Rightarrow> int \<Rightarrow> int \<Rightarrow> int \<Rightarrow> bool" where
  "byteScan a nb addrBreak n =
     (if n < nb then
        (if a + n = addrBreak then True else byteScan a nb (addrBreak + 1) (n + 1 + 1))
      else False)"
  by pat_completeness auto
termination
  by (relation "measure (\<lambda>(a, nb, addrBreak, n). nat (nb - n))") auto

declare byteScan.simps [simp del]

text \<open>X86.OPCODE.INT3 (x86.js is not among the sources): the one-byte opcode of INT3.\<close>

definition OPCODE_INT3 :: int where
  "OPCODE_INT3 = 0xCC"

text \<open>
  The outer loop of \<open>checkBreakpoint\<close>: the first breakpoint hit, if any, and the
  breakpoints afterwards (linear addresses zapped and recomputed as far as the scan
  went).
\<close>

fun hitScan :: "Debugger \<Rightarrow> int \<Rightarrow> int \<Rightarrow> DbgAddr list \<Rightarrow> DbgAddr option \<times> DbgAddr list" where
  "hitScan D a nb [] = (None, [])"
| "hitScan D a nb (dbgAddrBreak # rest) =
     (let e0 = (if sel dbgAddrBreak \<noteq> None then dbgAddrBreak\<lparr>addr := None\<rparr>
                else dbgAddrBreak);
          (ab, e1) = getAddr D e0 False 0;
          addrBreak = mapBreakpoint D ab
      in if byteScan a nb addrBreak 0 then (Some e1, e1 # rest)
         else (let (h, rest') = hitScan D a nb rest in (h, e1 # rest')))"

text \<open>
  The mapped linear address that \<open>checkBreakpoint\<close> computes for a breakpoint: the
  cached linear address is dropped first unless the breakpoint is a linear one.
\<close>

definition breakAddr :: "Debugger \<Rightarrow> DbgAddr \<Rightarrow> int" where
  "breakAddr D e =
     mapBreakpoint D
       (fst (getAddr D (if sel e \<noteq> None then e\<lparr>addr := None\<rparr> else e) False 0))"

definition checkBreakpoint :: "Debugger \<Rightarrow> int \<Rightarrow> int \<Rightarrow> BreakKind \<Rightarrow> bool \<Rightarrow> bool \<times> Debugger" where
  "checkBreakpoint D a0 nb k fTemp =
     (let D1 = D\<lparr>nSuppressBreaks := nSuppressBreaks D + 1\<rparr>;
          (fBreak, D4) =
            (if nSuppressBreaks D = 0 then
               (let a = mapBreakpoint D1 a0
                in if messageEnabled D1 (js_or (MessagesINT D1) (MessagesHALT D1))
                      \<and> probeAddr (cpu D1) a = OPCODE_INT3
                   then (True, D1)
                   else
                     (let (h, es) = hitScan D1 a nb (entries (getBreak D1 k));
                          D2 = setEntries D1 k es
                      in case h of
                           None \<Rightarrow> (False, D2)
                         | Some e \<Rightarrow>
                             if fTempBreak e
                             then (let (f, D3, e') = findBreakpoint D2 k e True in (True, D3))
                             else (True, D2)))
             else (False, D1))
      in (fBreak, D4\<lparr>nSuppressBreaks := nSuppressBreaks D4 - 1\<rparr>))"

section \<open>Expression evaluation\<close>

text \<open>
  Values are JavaScript numbers holding integers; every result of an operation is cut to
  a signed 32-bit integer by \<open>valNew|0\<close>.  \<open>parseValue\<close> resolves register names through
  the CPU and parses literals with \<open>str.parseInt\<close>, which is not among the sources: the
  model takes it as a parameter \<open>pv\<close> that delivers integers of at most 32 bits, or
  \<open>None\<close> for \<open>undefined\<close>.  Sums and differences of such values are exact; a product
  can exceed 53 bits and is then rounded to the nearest double (ties to even) before
  \<open>|0\<close>; a quotient is truncated towards zero by \<open>|0\<close>; \<open>%\<close> takes the sign of the
  dividend.
\<close>

definition round53 :: "int \<Rightarrow> int" where
  "round53 p =
     (if \<bar>p\<bar> < 2 ^ 53 then p
      else let m = nat \<bar>p\<bar>;
               e = floorlog 2 m - 53;
               q = m div 2 ^ e;
               r = m mod 2 ^ e;
               q' = (if 2 * r > 2 ^ e \<or> (2 * r = 2 ^ e \<and> odd q) then q + 1 else q)
           in sgn p * int (q' * 2 ^ e))"

definition js_xor :: "int \<Rightarrow> int \<Rightarrow> int" where
  "js_xor a b = sint ((word_of_int a :: 32 word) XOR word_of_int b)"

definition aBinOpPrecedence :: "char \<Rightarrow> nat option" where
  "aBinOpPrecedence ch =
     (if ch = CHR ''|'' then Some 0
      else if ch = CHR ''^'' then Some 1
      else if ch = CHR ''&'' then Some 2
      else if ch = CHR ''-'' then Some 4
      else if ch = CHR ''+'' then Some 4
      else if ch = CHR ''%'' then Some 5
      else if ch = CHR ''/'' then Some 5
      else if ch = CHR ''*'' then Some 5
      else None)"

text \<open>
  One operation of \<open>evalExpression\<close>'s \<open>switch\<close>: \<open>None\<close> where the code returns
  false (a zero divisor, an unknown operator), otherwise \<open>valNew|0\<close>.
\<close>

definition binop :: "char \<Rightarrow> int \<Rightarrow> int \<Rightarrow> int option" where
  "binop chOp val1 val2 =
     (if chOp = CHR ''+'' then Some (toInt32 (val1 + val2))
      else if chOp = CHR ''-'' then Some (toInt32 (val1 - val2))
      else if chOp = CHR ''*'' then Some (toInt32 (round53 (val1 * val2)))
      else if chOp = CHR ''/'' then
        (if val2 = 0 then None else Some (toInt32 (val1 sdiv val2)))
      else if chOp = CHR ''%'' then
        (if val2 = 0 then None else Some (toInt32 (val1 smod val2)))
      else if chOp = CHR ''&'' then Some (js_and val1 val2)
      else if chOp = CHR ''^'' then Some (js_xor val1 val2)
      else if chOp = CHR ''|'' then Some (js_or val1 val2)
      else None)"

text \<open>
  The two stacks \<open>aVals\<close> and \<open>aOps\<close> are lists whose head is the top of the stack
  (the end of the JavaScript array, where \<open>push\<close> and \<open>pop\<close> work).  \<open>evalLoop\<close> is
  the \<open>while (cOps-- && aOps.length)\<close> loop: it returns the success flag and both
  stacks as the code leaves them, also on failure.
\<close>

fun evalLoop :: "int list \<Rightarrow> char list \<Rightarrow> int \<Rightarrow> bool \<times> int list \<times> char list" where
  "evalLoop aVals [] cOps = (True, aVals, [])"
| "evalLoop aVals (chOp # aOps) cOps =
     (if cOps = 0 then (True, aVals, chOp # aOps)
      else case aVals of
             val2 # val1 # rest \<Rightarrow>
               (case binop chOp val1 val2 of
                  None \<Rightarrow> (False, rest, aOps)
                | Some valNew \<Rightarrow> evalLoop (valNew # rest) aOps (cOps - 1))
           | _ \<Rightarrow> (False, aVals, aOps))"

text \<open>\<open>cOps\<close>: \<open>None\<close> for an omitted argument; \<open>cOps || -1\<close>.\<close>

definition evalExpression :: "int list \<Rightarrow> char list \<Rightarrow> int option \<Rightarrow> bool \<times> int list \<times> char list" where
  "evalExpression aVals aOps cOps =
     evalLoop aVals aOps (case cOps of None \<Rightarrow> -1 | Some c \<Rightarrow> if c = 0 then -1 else c)"

definition isBinOp :: "char \<Rightarrow> bool" where
  "isBinOp ch = (ch \<in> set ''|^&+%/*-'')"

text \<open>\<open>sExp.split(/[|^&+%\\/*-]/)\<close>: the pieces between the operator characters.\<close>

fun splitBinOps :: "string \<Rightarrow> string list" where
  "splitBinOps [] = [[]]"
| "splitBinOps (ch # s) =
     (if isBinOp ch then [] # splitBinOps s
      else case splitBinOps s of
             [] \<Rightarrow> [[ch]]
           | piece # pieces \<Rightarrow> (ch # piece) # pieces)"

text \<open>
  \<open>str.trim\<close> (strlib.js is not among the sources): the string without its leading and
  trailing white space.
\<close>

definition isSpace :: "char \<Rightarrow> bool" where
  "isSpace ch = (ch \<in> set [CHR '' '', CHR 0x09, CHR 0x0A, CHR 0x0B, CHR 0x0C, CHR 0x0D])"

definition str_trim :: "string \<Rightarrow> string" where
  "str_trim s = rev (dropWhile isSpace (rev (dropWhile isSpace s)))"

text \<open>
  The \<open>for\<close> loop of \<open>parseExpression\<close> over the pieces \<open>asValues\<close>, with the running
  \<open>sExp\<close>: it returns \<open>fError\<close> and the two stacks.  The result of the call
  \<open>evalExpression(aVals, aOps, 1)\<close> inside the loop is not looked at; only the stacks
  it leaves are used.  An operator character always has a precedence; \<open><\<close> on an
  \<open>undefined\<close> precedence would be false.
\<close>

definition precLess :: "char \<Rightarrow> char \<Rightarrow> bool" where
  "precLess c1 c2 =
     (case (aBinOpPrecedence c1, aBinOpPrecedence c2) of
        (Some p1, Some p2) \<Rightarrow> p1 < p2
      | _ \<Rightarrow> False)"

fun parseLoop :: "(string \<Rightarrow> int option) \<Rightarrow> string list \<Rightarrow> string \<Rightarrow> int list \<Rightarrow> char list \<Rightarrow>
    bool \<times> int list \<times> char list" where
  "parseLoop pv [] sExp aVals aOps = (False, aVals, aOps)"
| "parseLoop pv (sValue # asValues) sExp aVals aOps =
     (let s = str_trim sValue
      in if s = [] then (True, aVals, aOps)
         else case pv s of
                None \<Rightarrow> (True, aVals, aOps)
              | Some v \<Rightarrow>
                  (case drop (length sValue) sExp of
                     [] \<Rightarrow> (False, v # aVals, aOps)
                   | chOp # sRest \<Rightarrow>
                       (let (aVals1, aOps1) =
                              (if aOps \<noteq> [] \<and> precLess chOp (hd aOps)
                               then snd (evalExpression (v # aVals) aOps (Some 1))
                               else (v # aVals, aOps))
                        in parseLoop pv asValues sRest aVals1 (chOp # aOps1))))"

definition parseExpression :: "(string \<Rightarrow> int option) \<Rightarrow> string \<Rightarrow> int option" where
  "parseExpression pv sExp =
     (let (fError, aVals, aOps) = parseLoop pv (splitBinOps sExp) sExp [] [];
          (ok, aVals1, aOps1) = evalExpression aVals aOps None
      in if fError \<or> \<not> ok \<or> length aVals1 \<noteq> 1 then None else Some (hd aVals1))"

section \<open>Opcode tables\<close>

abbreviation (input) REG_AL :: int where "REG_AL \<equiv> 0x00"
abbreviation (input) REG_CL :: int where "REG_CL \<equiv> 0x01"
abbreviation (input) REG_DL :: int where "REG_DL \<equiv> 0x02"
abbreviation (input) REG_BL :: int where "REG_BL \<equiv> 0x03"
abbreviation (input) REG_AH :: int where "REG_AH \<equiv> 0x04"
abbreviation (input) REG_CH :: int where "REG_CH \<equiv> 0x05"
abbreviation (input) REG_DH :: int where "REG_DH \<equiv> 0x06"
abbreviation (input) REG_BH :: int where "REG_BH \<equiv> 0x07"
abbreviation (input) REG_AX :: int where "REG_AX \<equiv> 0x08"
abbreviation (input) REG_CX :: int where "REG_CX \<equiv> 0x09"
abbreviation (input) REG_DX :: int where "REG_DX \<equiv> 0x0A"
abbreviation (input) REG_BX :: int where "REG_BX \<equiv> 0x0B"
abbreviation (input) REG_SP :: int where "REG_SP \<equiv> 0x0C"
abbreviation (input) REG_BP :: int where "REG_BP \<equiv> 0x0D"
abbreviation (input) REG_SI :: int where "REG_SI \<equiv> 0x0E"
abbreviation (input) REG_DI :: int where "REG_DI \<equiv> 0x0F"
abbreviation (input) REG_SEG :: int where "REG_SEG \<equiv> 0x10"
abbreviation (input) REG_EAX :: int where "REG_EAX \<equiv> 0x18"
abbreviation (input) REG_CR0 :: int where "REG_CR0 \<equiv> 0x20"
abbreviation (input) REG_DR0 :: int where "REG_DR0 \<equiv> 0x28"
abbreviation (input) REG_TR0 :: int where "REG_TR0 \<equiv> 0x30"

abbreviation (input) REG_ES :: int where "REG_ES \<equiv> 0x00"
abbreviation (input) REG_CS :: int where "REG_CS \<equiv> 0x01"
abbreviation (input) REG_SS :: int where "REG_SS \<equiv> 0x02"
abbreviation (input) REG_DS :: int where "REG_DS \<equiv> 0x03"
abbreviation (input) REG_FS :: int where "REG_FS \<equiv> 0x04"
abbreviation (input) REG_GS :: int where "REG_GS \<equiv> 0x05"

text \<open>\<open>None\<close> is a \<open>null\<close> entry of \<open>Debugger.REGS\<close>.\<close>

definition REGS :: "string option list" where
  "REGS = [
     Some ''AL'', Some ''CL'', Some ''DL'', Some ''BL'', Some ''AH'', Some ''CH'', Some ''DH'', Some ''BH'',
     Some ''AX'', Some ''CX'', Some ''DX'', Some ''BX'', Some ''SP'', Some ''BP'', Some ''SI'', Some ''DI'',
     Some ''ES'', Some ''CS'', Some ''SS'', Some ''DS'', Some ''FS'', Some ''GS'', Some ''IP'', Some ''PS'',
     Some ''EAX'', Some ''ECX'', Some ''EDX'', Some ''EBX'', Some ''ESP'', Some ''EBP'', Some ''ESI'', Some ''EDI'',
     Some ''CR0'', Some ''CR1'', Some ''CR2'', Some ''CR3'', None, None, None, None,
     Some ''DR0'', Some ''DR1'', Some ''DR2'', Some ''DR3'', None, None, Some ''DR6'', Some ''DR7'',
     None, None, None, None, None, None, Some ''TR6'', Some ''TR7'',
     Some ''EIP'']"

definition RMS :: "string list" where
  "RMS = [
     ''BX+SI'', ''BX+DI'', ''BP+SI'', ''BP+DI'', ''SI'', ''DI'', ''BP'', ''BX'',
     ''EAX'', ''ECX'', ''EDX'', ''EBX'', ''ESP'', ''EBP'', ''ESI'', ''EDI'']"

abbreviation (input) TYPE_SIZE :: int where "TYPE_SIZE \<equiv> 0x000F"
abbreviation (input) TYPE_MODE :: int where "TYPE_MODE \<equiv> 0x00F0"
abbreviation (input) TYPE_IREG :: int where "TYPE_IREG \<equiv> 0x0F00"
abbreviation (input) TYPE_OTHER :: int where "TYPE_OTHER \<equiv> 0xF000"

abbreviation (input) TYPE_NONE :: int where "TYPE_NONE \<equiv> 0x0000"
abbreviation (input) TYPE_BYTE :: int where "TYPE_BYTE \<equiv> 0x0001"
abbreviation (input) TYPE_SBYTE :: int where "TYPE_SBYTE \<equiv> 0x0002"
abbreviation (input) TYPE_WORD :: int where "TYPE_WORD \<equiv> 0x0003"
abbreviation (input) TYPE_VWORD :: int where "TYPE_VWORD \<equiv> 0x0004"
abbreviation (input) TYPE_DWORD :: int where "TYPE_DWORD \<equiv> 0x0005"
abbreviation (input) TYPE_SEGP :: int where "TYPE_SEGP \<equiv> 0x0006"
abbreviation (input) TYPE_FARP :: int where "TYPE_FARP \<equiv> 0x0007"
abbreviation (input) TYPE_2WORD :: int where "TYPE_2WORD \<equiv> 0x0008"
abbreviation (input) TYPE_DESC :: int where "TYPE_DESC \<equiv> 0x0009"
abbreviation (input) TYPE_WORDIB :: int where "TYPE_WORDIB \<equiv> 0x000A"
abbreviation (input) TYPE_WORDIW :: int where "TYPE_WORDIW \<equiv> 0x000B"
abbreviation (input) TYPE_PREFIX :: int where "TYPE_PREFIX \<equiv> 0x000F"

abbreviation (input) TYPE_IMM :: int where "TYPE_IMM \<equiv> 0x0000"
abbreviation (input) TYPE_ONE :: int where "TYPE_ONE \<equiv> 0x0010"
abbreviation (input) TYPE_IMMOFF :: int where "TYPE_IMMOFF \<equiv> 0x0020"
abbreviation (input) TYPE_IMMREL :: int where "TYPE_IMMREL \<equiv> 0x0030"
abbreviation (input) TYPE_DSSI :: int where "TYPE_DSSI \<equiv> 0x0040"
abbreviation (input) TYPE_ESDI :: int where "TYPE_ESDI \<equiv> 0x0050"
abbreviation (input) TYPE_IMPREG :: int where "TYPE_IMPREG \<equiv> 0x0060"
abbreviation (input) TYPE_IMPSEG :: int where "TYPE_IMPSEG \<equiv> 0x0070"
abbreviation (input) TYPE_MODRM :: int where "TYPE_MODRM \<equiv> 0x0080"
abbreviation (input) TYPE_MODMEM :: int where "TYPE_MODMEM \<equiv> 0x0090"
abbreviation (input) TYPE_MODREG :: int where "TYPE_MODREG \<equiv> 0x00A0"
abbreviation (input) TYPE_REG :: int where "TYPE_REG \<equiv> 0x00B0"
abbreviation (input) TYPE_SEGREG :: int where "TYPE_SEGREG \<equiv> 0x00C0"
abbreviation (input) TYPE_CTLREG :: int where "TYPE_CTLREG \<equiv> 0x00D0"
abbreviation (input) TYPE_DBGREG :: int where "TYPE_DBGREG \<equiv> 0x00E0"
abbreviation (input) TYPE_TSTREG :: int where "TYPE_TSTREG \<equiv> 0x00F0"

abbreviation (input) TYPE_AL :: int where "TYPE_AL \<equiv> push_bit 8 REG_AL OR TYPE_IMPREG OR TYPE_BYTE"
abbreviation (input) TYPE_CL :: int where "TYPE_CL \<equiv> push_bit 8 REG_CL OR TYPE_IMPREG OR TYPE_BYTE"
abbreviation (input) TYPE_DL :: int where "TYPE_DL \<equiv> push_bit 8 REG_DL OR TYPE_IMPREG OR TYPE_BYTE"
abbreviation (input) TYPE_BL :: int where "TYPE_BL \<equiv> push_bit 8 REG_BL OR TYPE_IMPREG OR TYPE_BYTE"
abbreviation (input) TYPE_AH :: int where "TYPE_AH \<equiv> push_bit 8 REG_AH OR TYPE_IMPREG OR TYPE_BYTE"
abbreviation (input) TYPE_CH :: int where "TYPE_CH \<equiv> push_bit 8 REG_CH OR TYPE_IMPREG OR TYPE_BYTE"
abbreviation (input) TYPE_DH :: int where "TYPE_DH \<equiv> push_bit 8 REG_DH OR TYPE_IMPREG OR TYPE_BYTE"
abbreviation (input) TYPE_BH :: int where "TYPE_BH \<equiv> push_bit 8 REG_BH OR TYPE_IMPREG OR TYPE_BYTE"
abbreviation (input) TYPE_AX :: int where "TYPE_AX \<equiv> push_bit 8 REG_AX OR TYPE_IMPREG OR TYPE_VWORD"
abbreviation (input) TYPE_CX :: int where "TYPE_CX \<equiv> push_bit 8 REG_CX OR TYPE_IMPREG OR TYPE_VWORD"
abbreviation (input) TYPE_DX :: int where "TYPE_DX \<equiv> push_bit 8 REG_DX OR TYPE_IMPREG OR TYPE_VWORD"
abbreviation (input) TYPE_BX :: int where "TYPE_BX \<equiv> push_bit 8 REG_BX OR TYPE_IMPREG OR TYPE_VWORD"
abbreviation (input) TYPE_SP :: int where "TYPE_SP \<equiv> push_bit 8 REG_SP OR TYPE_IMPREG OR TYPE_VWORD"
abbreviation (input) TYPE_BP :: int where "TYPE_BP \<equiv> push_bit 8 REG_BP OR TYPE_IMPREG OR TYPE_VWORD"
abbreviation (input) TYPE_SI :: int where "TYPE_SI \<equiv> push_bit 8 REG_SI OR TYPE_IMPREG OR TYPE_VWORD"
abbreviation (input) TYPE_DI :: int where "TYPE_DI \<equiv> push_bit 8 REG_DI OR TYPE_IMPREG OR TYPE_VWORD"
abbreviation (input) TYPE_ES :: int where "TYPE_ES \<equiv> push_bit 8 REG_ES OR TYPE_IMPSEG OR TYPE_WORD"
abbreviation (input) TYPE_CS :: int where "TYPE_CS \<equiv> push_bit 8 REG_CS OR TYPE_IMPSEG OR TYPE_WORD"
abbreviation (input) TYPE_SS :: int where "TYPE_SS \<equiv> push_bit 8 REG_SS OR TYPE_IMPSEG OR TYPE_WORD"
abbreviation (input) TYPE_DS :: int where "TYPE_DS \<equiv> push_bit 8 REG_DS OR TYPE_IMPSEG OR TYPE_WORD"
abbreviation (input) TYPE_FS :: int where "TYPE_FS \<equiv> push_bit 8 REG_FS OR TYPE_IMPSEG OR TYPE_WORD"
abbreviation (input) TYPE_GS :: int where "TYPE_GS \<equiv> push_bit 8 REG_GS OR TYPE_IMPSEG OR TYPE_WORD"

abbreviation (input) CPU_8086 :: int where "CPU_8086 \<equiv> 0"
abbreviation (input) CPU_80186 :: int where "CPU_80186 \<equiv> 1"
abbreviation (input) CPU_80286 :: int where "CPU_80286 \<equiv> 2"
abbreviation (input) CPU_80386 :: int where "CPU_80386 \<equiv> 3"

definition CPUS :: "int list" where
  "CPUS = [8086, 80186, 80286, 80386]"

abbreviation (input) TYPE_IN :: int where "TYPE_IN \<equiv> 0x1000"
abbreviation (input) TYPE_OUT :: int where "TYPE_OUT \<equiv> 0x2000"
abbreviation (input) TYPE_BOTH :: int where "TYPE_BOTH \<equiv> TYPE_IN OR TYPE_OUT"
abbreviation (input) TYPE_8086 :: int where "TYPE_8086 \<equiv> push_bit 14 CPU_8086"
abbreviation (input) TYPE_80186 :: int where "TYPE_80186 \<equiv> push_bit 14 CPU_80186"
abbreviation (input) TYPE_80286 :: int where "TYPE_80286 \<equiv> push_bit 14 CPU_80286"
abbreviation (input) TYPE_80386 :: int where "TYPE_80386 \<equiv> push_bit 14 CPU_80386"
abbreviation (input) TYPE_CPU_SHIFT :: nat where "TYPE_CPU_SHIFT \<equiv> 14"

text \<open>
  An opcode descriptor \<open>aOpDesc\<close>: element 0, the instruction ordinal, and the operand
  type descriptors that follow it.
\<close>

type_synonym OpDesc = "nat \<times> int list"

text \<open>The instruction ordinals \<open>Debugger.INS\<close>.\<close>

abbreviation (input) INS_NONE :: nat where "INS_NONE \<equiv> 0"
abbreviation (input) INS_AAA :: nat where "INS_AAA \<equiv> 1"
abbreviation (input) INS_AAD :: nat where "INS_AAD \<equiv> 2"
abbreviation (input) INS_AAM :: nat where "INS_AAM \<equiv> 3"
abbreviation (input) INS_AAS :: nat where "INS_AAS \<equiv> 4"
abbreviation (input) INS_ADC :: nat where "INS_ADC \<equiv> 5"
abbreviation (input) INS_ADD :: nat where "INS_ADD \<equiv> 6"
abbreviation (input) INS_AND :: nat where "INS_AND \<equiv> 7"
abbreviation (input) INS_ARPL :: nat where "INS_ARPL \<equiv> 8"
abbreviation (input) INS_AS :: nat where "INS_AS \<equiv> 9"
abbreviation (input) INS_BOUND :: nat where "INS_BOUND \<equiv> 10"
abbreviation (input) INS_BSF :: nat where "INS_BSF \<equiv> 11"
abbreviation (input) INS_BSR :: nat where "INS_BSR \<equiv> 12"
abbreviation (input) INS_BT :: nat where "INS_BT \<equiv> 13"
abbreviation (input) INS_BTC :: nat where "INS_BTC \<equiv> 14"
abbreviation (input) INS_BTR :: nat where "INS_BTR \<equiv> 15"
abbreviation (input) INS_BTS :: nat where "INS_BTS \<equiv> 16"
abbreviation (input) INS_CALL :: nat where "INS_CALL \<equiv> 17"
abbreviation (input) INS_CBW :: nat where "INS_CBW \<equiv> 18"
abbreviation (input) INS_CLC :: nat where "INS_CLC \<equiv> 19"
abbreviation (input) INS_CLD :: nat where "INS_CLD \<equiv> 20"
abbreviation (input) INS_CLI :: nat where "INS_CLI \<equiv> 21"
abbreviation (input) INS_CLTS :: nat where "INS_CLTS \<equiv> 22"
abbreviation (input) INS_CMC :: nat where "INS_CMC \<equiv> 23"
abbreviation (input) INS_CMP :: nat where "INS_CMP \<equiv> 24"
abbreviation (input) INS_CMPSB :: nat where "INS_CMPSB \<equiv> 25"
abbreviation (input) INS_CMPSW :: nat where "INS_CMPSW \<equiv> 26"
abbreviation (input) INS_CS :: nat where "INS_CS \<equiv> 27"
abbreviation (input) INS_CWD :: nat where "INS_CWD \<equiv> 28"
abbreviation (input) INS_DAA :: nat where "INS_DAA \<equiv> 29"
abbreviation (input) INS_DAS :: nat where "INS_DAS \<equiv> 30"
abbreviation (input) INS_DEC :: nat where "INS_DEC \<equiv> 31"
abbreviation (input) INS_DIV :: nat where "INS_DIV \<equiv> 32"
abbreviation (input) INS_DS :: nat where "INS_DS \<equiv> 33"
abbreviation (input) INS_ENTER :: nat where "INS_ENTER \<equiv> 34"
abbreviation (input) INS_ES :: nat where "INS_ES \<equiv> 35"
abbreviation (input) INS_ESC :: nat where "INS_ESC \<equiv> 36"
abbreviation (input) INS_FADD :: nat where "INS_FADD \<equiv> 37"
abbreviation (input) INS_FBLD :: nat where "INS_FBLD \<equiv> 38"
abbreviation (input) INS_FBSTP :: nat where "INS_FBSTP \<equiv> 39"
abbreviation (input) INS_FCOM :: nat where "INS_FCOM \<equiv> 40"
abbreviation (input) INS_FCOMP :: nat where "INS_FCOMP \<equiv> 41"
abbreviation (input) INS_FDIV :: nat where "INS_FDIV \<equiv> 42"
abbreviation (input) INS_FDIVR :: nat where "INS_FDIVR \<equiv> 43"
abbreviation (input) INS_FIADD :: nat where "INS_FIADD \<equiv> 44"
abbreviation (input) INS_FICOM :: nat where "INS_FICOM \<equiv> 45"
abbreviation (input) INS_FICOMP :: nat where "INS_FICOMP \<equiv> 46"
abbreviation (input) INS_FIDIV :: nat where "INS_FIDIV \<equiv> 47"
abbreviation (input) INS_FIDIVR :: nat where "INS_FIDIVR \<equiv> 48"
abbreviation (input) INS_FILD :: nat where "INS_FILD \<equiv> 49"
abbreviation (input) INS_FIMUL :: nat where "INS_FIMUL \<equiv> 50"
abbreviation (input) INS_FIST :: nat where "INS_FIST \<equiv> 51"
abbreviation (input) INS_FISTP :: nat where "INS_FISTP \<equiv> 52"
abbreviation (input) INS_FISUB :: nat where "INS_FISUB \<equiv> 53"
abbreviation (input) INS_FISUBR :: nat where "INS_FISUBR \<equiv> 54"
abbreviation (input) INS_FLD :: nat where "INS_FLD \<equiv> 55"
abbreviation (input) INS_FLDCW :: nat where "INS_FLDCW \<equiv> 56"
abbreviation (input) INS_FLDENV :: nat where "INS_FLDENV \<equiv> 57"
abbreviation (input) INS_FMUL :: nat where "INS_FMUL \<equiv> 58"
abbreviation (input) INS_FNSAVE :: nat where "INS_FNSAVE \<equiv> 59"
abbreviation (input) INS_FNSTCW :: nat where "INS_FNSTCW \<equiv> 60"
abbreviation (input) INS_FNSTENV :: nat where "INS_FNSTENV \<equiv> 61"
abbreviation (input) INS_FNSTSW :: nat where "INS_FNSTSW \<equiv> 62"
abbreviation (input) INS_FRSTOR :: nat where "INS_FRSTOR \<equiv> 63"
abbreviation (input) INS_FS :: nat where "INS_FS \<equiv> 64"
abbreviation (input) INS_FST :: nat where "INS_FST \<equiv> 65"
abbreviation (input) INS_FSTP :: nat where "INS_FSTP \<equiv> 66"
abbreviation (input) INS_FSUB :: nat where "INS_FSUB \<equiv> 67"
abbreviation (input) INS_FSUBR :: nat where "INS_FSUBR \<equiv> 68"
abbreviation (input) INS_GS :: nat where "INS_GS \<equiv> 69"
abbreviation (input) INS_HLT :: nat where "INS_HLT \<equiv> 70"
abbreviation (input) INS_IDIV :: nat where "INS_IDIV \<equiv> 71"
abbreviation (input) INS_IMUL :: nat where "INS_IMUL \<equiv> 72"
abbreviation (input) INS_IN :: nat where "INS_IN \<equiv> 73"
abbreviation (input) INS_INC :: nat where "INS_INC \<equiv> 74"
abbreviation (input) INS_INS :: nat where "INS_INS \<equiv> 75"
abbreviation (input) INS_INT :: nat where "INS_INT \<equiv> 76"
abbreviation (input) INS_INT3 :: nat where "INS_INT3 \<equiv> 77"
abbreviation (input) INS_INTO :: nat where "INS_INTO \<equiv> 78"
abbreviation (input) INS_IRET :: nat where "INS_IRET \<equiv> 79"
abbreviation (input) INS_JBE :: nat where "INS_JBE \<equiv> 80"
abbreviation (input) INS_JC :: nat where "INS_JC \<equiv> 81"
abbreviation (input) INS_JCXZ :: nat where "INS_JCXZ \<equiv> 82"
abbreviation (input) INS_JG :: nat where "INS_JG \<equiv> 83"
abbreviation (input) INS_JGE :: nat where "INS_JGE \<equiv> 84"
abbreviation (input) INS_JL :: nat where "INS_JL \<equiv> 85"
abbreviation (input) INS_JLE :: nat where "INS_JLE \<equiv> 86"
abbreviation (input) INS_JMP :: nat where "INS_JMP \<equiv> 87"
abbreviation (input) INS_JA :: nat where "INS_JA \<equiv> 88"
abbreviation (input) INS_JNC :: nat where "INS_JNC \<equiv> 89"
abbreviation (input) INS_JNO :: nat where "INS_JNO \<equiv> 90"
abbreviation (input) INS_JNP :: nat where "INS_JNP \<equiv> 91"
abbreviation (input) INS_JNS :: nat where "INS_JNS \<equiv> 92"
abbreviation (input) INS_JNZ :: nat where "INS_JNZ \<equiv> 93"
abbreviation (input) INS_JO :: nat where "INS_JO \<equiv> 94"
abbreviation (input) INS_JP :: nat where "INS_JP \<equiv> 95"
abbreviation (input) INS_JS :: nat where "INS_JS \<equiv> 96"
abbreviation (input) INS_JZ :: nat where "INS_JZ \<equiv> 97"
abbreviation (input) INS_LAHF :: nat where "INS_LAHF \<equiv> 98"
abbreviation (input) INS_LAR :: nat where "INS_LAR \<equiv> 99"
abbreviation (input) INS_LDS :: nat where "INS_LDS \<equiv> 100"
abbreviation (input) INS_LEA :: nat where "INS_LEA \<equiv> 101"
abbreviation (input) INS_LEAVE :: nat where "INS_LEAVE \<equiv> 102"
abbreviation (input) INS_LES :: nat where "INS_LES \<equiv> 103"
abbreviation (input) INS_LFS :: nat where "INS_LFS \<equiv> 104"
abbreviation (input) INS_LGDT :: nat where "INS_LGDT \<equiv> 105"
abbreviation (input) INS_LGS :: nat where "INS_LGS \<equiv> 106"
abbreviation (input) INS_LIDT :: nat where "INS_LIDT \<equiv> 107"
abbreviation (input) INS_LLDT :: nat where "INS_LLDT \<equiv> 108"
abbreviation (input) INS_LMSW :: nat where "INS_LMSW \<equiv> 109"
abbreviation (input) INS_LOADALL :: nat where "INS_LOADALL \<equiv> 110"
abbreviation (input) INS_LOCK :: nat where "INS_LOCK \<equiv> 111"
abbreviation (input) INS_LODSB :: nat where "INS_LODSB \<equiv> 112"
abbreviation (input) INS_LODSW :: nat where "INS_LODSW \<equiv> 113"
abbreviation (input) INS_LOOP :: nat where "INS_LOOP \<equiv> 114"
abbreviation (input) INS_LOOPNZ :: nat where "INS_LOOPNZ \<equiv> 115"
abbreviation (input) INS_LOOPZ :: nat where "INS_LOOPZ \<equiv> 116"
abbreviation (input) INS_LSL :: nat where "INS_LSL \<equiv> 117"
abbreviation (input) INS_LSS :: nat where "INS_LSS \<equiv> 118"
abbreviation (input) INS_LTR :: nat where "INS_LTR \<equiv> 119"
abbreviation (input) INS_MOV :: nat where "INS_MOV \<equiv> 120"
abbreviation (input) INS_MOVSB :: nat where "INS_MOVSB \<equiv> 121"
abbreviation (input) INS_MOVSW :: nat where "INS_MOVSW \<equiv> 122"
abbreviation (input) INS_MOVSX :: nat where "INS_MOVSX \<equiv> 123"
abbreviation (input) INS_MOVZX :: nat where "INS_MOVZX \<equiv> 124"
abbreviation (input) INS_MUL :: nat where "INS_MUL \<equiv> 125"
abbreviation (input) INS_NEG :: nat where "INS_NEG \<equiv> 126"
abbreviation (input) INS_NOP :: nat where "INS_NOP \<equiv> 127"
abbreviation (input) INS_NOT :: nat where "INS_NOT \<equiv> 128"
abbreviation (input) INS_OR :: nat where "INS_OR \<equiv> 129"
abbreviation (input) INS_OS :: nat where "INS_OS \<equiv> 130"
abbreviation (input) INS_OUT :: nat where "INS_OUT \<equiv> 131"
abbreviation (input) INS_OUTS :: nat where "INS_OUTS \<equiv> 132"
abbreviation (input) INS_POP :: nat where "INS_POP \<equiv> 133"
abbreviation (input) INS_POPA :: nat where "INS_POPA \<equiv> 134"
abbreviation (input) INS_POPF :: nat where "INS_POPF \<equiv> 135"
abbreviation (input) INS_PUSH :: nat where "INS_PUSH \<equiv> 136"
abbreviation (input) INS_PUSHA :: nat where "INS_PUSHA \<equiv> 137"
abbreviation (input) INS_PUSHF :: nat where "INS_PUSHF \<equiv> 138"
abbreviation (input) INS_RCL :: nat where "INS_RCL \<equiv> 139"
abbreviation (input) INS_RCR :: nat where "INS_RCR \<equiv> 140"
abbreviation (input) INS_REPNZ :: nat where "INS_REPNZ \<equiv> 141"
abbreviation (input) INS_REPZ :: nat where "INS_REPZ \<equiv> 142"
abbreviation (input) INS_RET :: nat where "INS_RET \<equiv> 143"
abbreviation (input) INS_RETF :: nat where "INS_RETF \<equiv> 144"
abbreviation (input) INS_ROL :: nat where "INS_ROL \<equiv> 145"
abbreviation (input) INS_ROR :: nat where "INS_ROR \<equiv> 146"
abbreviation (input) INS_SAHF :: nat where "INS_SAHF \<equiv> 147"
abbreviation (input) INS_SALC :: nat where "INS_SALC \<equiv> 148"
abbreviation (input) INS_SAR :: nat where "INS_SAR \<equiv> 149"
abbreviation (input) INS_SBB :: nat where "INS_SBB \<equiv> 150"
abbreviation (input) INS_SCASB :: nat where "INS_SCASB \<equiv> 151"
abbreviation (input) INS_SCASW :: nat where "INS_SCASW \<equiv> 152"
abbreviation (input) INS_SETBE :: nat where "INS_SETBE \<equiv> 153"
abbreviation (input) INS_SETC :: nat where "INS_SETC \<equiv> 154"
abbreviation (input) INS_SETG :: nat where "INS_SETG \<equiv> 155"
abbreviation (input) INS_SETGE :: nat where "INS_SETGE \<equiv> 156"
abbreviation (input) INS_SETL :: nat where "INS_SETL \<equiv> 157"
abbreviation (input) INS_SETLE :: nat where "INS_SETLE \<equiv> 158"
abbreviation (input) INS_SETNBE :: nat where "INS_SETNBE \<equiv> 159"
abbreviation (input) INS_SETNC :: nat where "INS_SETNC \<equiv> 160"
abbreviation (input) INS_SETNO :: nat where "INS_SETNO \<equiv> 161"
abbreviation (input) INS_SETNP :: nat where "INS_SETNP \<equiv> 162"
abbreviation (input) INS_SETNS :: nat where "INS_SETNS \<equiv> 163"
abbreviation (input) INS_SETNZ :: nat where "INS_SETNZ \<equiv> 164"
abbreviation (input) INS_SETO :: nat where "INS_SETO \<equiv> 165"
abbreviation (input) INS_SETP :: nat where "INS_SETP \<equiv> 166"
abbreviation (input) INS_SETS :: nat where "INS_SETS \<equiv> 167"
abbreviation (input) INS_SETZ :: nat where "INS_SETZ \<equiv> 168"
abbreviation (input) INS_SGDT :: nat where "INS_SGDT \<equiv> 169"
abbreviation (input) INS_SHL :: nat where "INS_SHL \<equiv> 170"
abbreviation (input) INS_SHLD :: nat where "INS_SHLD \<equiv> 171"
abbreviation (input) INS_SHR :: nat where "INS_SHR \<equiv> 172"
abbreviation (input) INS_SHRD :: nat where "INS_SHRD \<equiv> 173"
abbreviation (input) INS_SIDT :: nat where "INS_SIDT \<equiv> 174"
abbreviation (input) INS_SLDT :: nat where "INS_SLDT \<equiv> 175"
abbreviation (input) INS_SMSW :: nat where "INS_SMSW \<equiv> 176"
abbreviation (input) INS_SS :: nat where "INS_SS \<equiv> 177"
abbreviation (input) INS_STC :: nat where "INS_STC \<equiv> 178"
abbreviation (input) INS_STD :: nat where "INS_STD \<equiv> 179"
abbreviation (input) INS_STI :: nat where "INS_STI \<equiv> 180"
abbreviation (input) INS_STOSB :: nat where "INS_STOSB \<equiv> 181"
abbreviation (input) INS_STOSW :: nat where "INS_STOSW \<equiv> 182"
abbreviation (input) INS_STR :: nat where "INS_STR \<equiv> 183"
abbreviation (input) INS_SUB :: nat where "INS_SUB \<equiv> 184"
abbreviation (input) INS_TEST :: nat where "INS_TEST \<equiv> 185"
abbreviation (input) INS_VERR :: nat where "INS_VERR \<equiv> 186"
abbreviation (input) INS_VERW :: nat where "INS_VERW \<equiv> 187"
abbreviation (input) INS_WAIT :: nat where "INS_WAIT \<equiv> 188"
abbreviation (input) INS_XCHG :: nat where "INS_XCHG \<equiv> 189"
abbreviation (input) INS_XLAT :: nat where "INS_XLAT \<equiv> 190"
abbreviation (input) INS_XOR :: nat where "INS_XOR \<equiv> 191"
abbreviation (input) INS_GRP1B :: nat where "INS_GRP1B \<equiv> 192"
abbreviation (input) INS_GRP1W :: nat where "INS_GRP1W \<equiv> 193"
abbreviation (input) INS_GRP1SW :: nat where "INS_GRP1SW \<equiv> 194"
abbreviation (input) INS_GRP2B :: nat where "INS_GRP2B \<equiv> 195"
abbreviation (input) INS_GRP2W :: nat where "INS_GRP2W \<equiv> 196"
abbreviation (input) INS_GRP2B1 :: nat where "INS_GRP2B1 \<equiv> 197"
abbreviation (input) INS_GRP2W1 :: nat where "INS_GRP2W1 \<equiv> 198"
abbreviation (input) INS_GRP2BC :: nat where "INS_GRP2BC \<equiv> 199"
abbreviation (input) INS_GRP2WC :: nat where "INS_GRP2WC \<equiv> 200"
abbreviation (input) INS_GRP3B :: nat where "INS_GRP3B \<equiv> 201"
abbreviation (input) INS_GRP3W :: nat where "INS_GRP3W \<equiv> 202"
abbreviation (input) INS_GRP4B :: nat where "INS_GRP4B \<equiv> 203"
abbreviation (input) INS_GRP4W :: nat where "INS_GRP4W \<equiv> 204"
abbreviation (input) INS_OP0F :: nat where "INS_OP0F \<equiv> 205"
abbreviation (input) INS_GRP6 :: nat where "INS_GRP6 \<equiv> 206"
abbreviation (input) INS_GRP7 :: nat where "INS_GRP7 \<equiv> 207"
abbreviation (input) INS_GRP8 :: nat where "INS_GRP8 \<equiv> 208"

definition INS_NAMES :: "string list" where
  "INS_NAMES = [
     ''INVALID'', ''AAA'', ''AAD'', ''AAM'', ''AAS'', ''ADC'', ''ADD'', ''AND'',
     ''ARPL'', ''AS:'', ''BOUND'', ''BSF'', ''BSR'', ''BT'', ''BTC'', ''BTR'',
     ''BTS'', ''CALL'', ''CBW'', ''CLC'', ''CLD'', ''CLI'', ''CLTS'', ''CMC'',
     ''CMP'', ''CMPSB'', ''CMPSW'', ''CS:'', ''CWD'', ''DAA'', ''DAS'', ''DEC'',
     ''DIV'', ''DS:'', ''ENTER'', ''ES:'', ''ESC'', ''FADD'', ''FBLD'', ''FBSTP'',
     ''FCOM'', ''FCOMP'', ''FDIV'', ''FDIVR'', ''FIADD'', ''FICOM'', ''FICOMP'', ''FIDIV'',
     ''FIDIVR'', ''FILD'', ''FIMUL'', ''FIST'', ''FISTP'', ''FISUB'', ''FISUBR'', ''FLD'',
     ''FLDCW'', ''FLDENV'', ''FMUL'', ''FNSAVE'', ''FNSTCW'', ''FNSTENV'', ''FNSTSW'', ''FRSTOR'',
     ''FS:'', ''FST'', ''FSTP'', ''FSUB'', ''FSUBR'', ''GS:'', ''HLT'', ''IDIV'',
     ''IMUL'', ''IN'', ''INC'', ''INS'', ''INT'', ''INT3'', ''INTO'', ''IRET'',
     ''JBE'', ''JC'', ''JCXZ'', ''JG'', ''JGE'', ''JL'', ''JLE'', ''JMP'',
     ''JA'', ''JNC'', ''JNO'', ''JNP'', ''JNS'', ''JNZ'', ''JO'', ''JP'',
     ''JS'', ''JZ'', ''LAHF'', ''LAR'', ''LDS'', ''LEA'', ''LEAVE'', ''LES'',
     ''LFS'', ''LGDT'', ''LGS'', ''LIDT'', ''LLDT'', ''LMSW'', ''LOADALL'', ''LOCK'',
     ''LODSB'', ''LODSW'', ''LOOP'', ''LOOPNZ'', ''LOOPZ'', ''LSL'', ''LSS'', ''LTR'',
     ''MOV'', ''MOVSB'', ''MOVSW'', ''MOVSX'', ''MOVZX'', ''MUL'', ''NEG'', ''NOP'',
     ''NOT'', ''OR'', ''OS:'', ''OUT'', ''OUTS'', ''POP'', ''POPA'', ''POPF'',
     ''PUSH'', ''PUSHA'', ''PUSHF'', ''RCL'', ''RCR'', ''REPNZ'', ''REPZ'', ''RET'',
     ''RETF'', ''ROL'', ''ROR'', ''SAHF'', ''SALC'', ''SAR'', ''SBB'', ''SCASB'',
     ''SCASW'', ''SETBE'', ''SETC'', ''SETG'', ''SETGE'', ''SETL'', ''SETLE'', ''SETNBE'',
     ''SETNC'', ''SETNO'', ''SETNP'', ''SETNS'', ''SETNZ'', ''SETO'', ''SETP'', ''SETS'',
     ''SETZ'', ''SGDT'', ''SHL'', ''SHLD'', ''SHR'', ''SHRD'', ''SIDT'', ''SLDT'',
     ''SMSW'', ''SS:'', ''STC'', ''STD'', ''STI'', ''STOSB'', ''STOSW'', ''STR'',
     ''SUB'', ''TEST'', ''VERR'', ''VERW'', ''WAIT'', ''XCHG'', ''XLAT'', ''XOR'']"

definition aOpDescPopCS :: OpDesc where
  "aOpDescPopCS = (INS_POP, [TYPE_CS OR TYPE_OUT])"

definition aOpDescUndefined :: OpDesc where
  "aOpDescUndefined = (INS_NONE, [TYPE_NONE])"

definition aOpDesc0F :: OpDesc where
  "aOpDesc0F = (INS_OP0F, [TYPE_WORD OR TYPE_BOTH])"

definition aaOpDescs :: "OpDesc list" where
  "aaOpDescs = [
     (INS_ADD, [TYPE_MODRM OR TYPE_BYTE OR TYPE_BOTH, TYPE_REG OR TYPE_BYTE OR TYPE_IN]),
     (INS_ADD, [TYPE_MODRM OR TYPE_VWORD OR TYPE_BOTH, TYPE_REG OR TYPE_VWORD OR TYPE_IN]),
     (INS_ADD, [TYPE_REG OR TYPE_BYTE OR TYPE_BOTH, TYPE_MODRM OR TYPE_BYTE OR TYPE_IN]),
     (INS_ADD, [TYPE_REG OR TYPE_VWORD OR TYPE_BOTH, TYPE_MODRM OR TYPE_VWORD OR TYPE_IN]),
     (INS_ADD, [TYPE_AL OR TYPE_BOTH, TYPE_IMM OR TYPE_BYTE OR TYPE_IN]),
     (INS_ADD, [TYPE_AX OR TYPE_BOTH, TYPE_IMM OR TYPE_VWORD OR TYPE_IN]),
     (INS_PUSH, [TYPE_ES OR TYPE_IN]),
     (INS_POP, [TYPE_ES OR TYPE_OUT]),
     (INS_OR, [TYPE_MODRM OR TYPE_BYTE OR TYPE_BOTH, TYPE_REG OR TYPE_BYTE OR TYPE_IN]),
     (INS_OR, [TYPE_MODRM OR TYPE_VWORD OR TYPE_BOTH, TYPE_REG OR TYPE_VWORD OR TYPE_IN]),
     (INS_OR, [TYPE_REG OR TYPE_BYTE OR TYPE_BOTH, TYPE_MODRM OR TYPE_BYTE OR TYPE_IN]),
     (INS_OR, [TYPE_REG OR TYPE_VWORD OR TYPE_BOTH, TYPE_MODRM OR TYPE_VWORD OR TYPE_IN]),
     (INS_OR, [TYPE_AL OR TYPE_BOTH, TYPE_IMM OR TYPE_BYTE OR TYPE_IN]),
     (INS_OR, [TYPE_AX OR TYPE_BOTH, TYPE_IMM OR TYPE_VWORD OR TYPE_IN]),
     (INS_PUSH, [TYPE_CS OR TYPE_IN]),
     aOpDescPopCS,
     (INS_ADC, [TYPE_MODRM OR TYPE_BYTE OR TYPE_BOTH, TYPE_REG OR TYPE_BYTE OR TYPE_IN]),
     (INS_ADC, [TYPE_MODRM OR TYPE_VWORD OR TYPE_BOTH, TYPE_REG OR TYPE_VWORD OR TYPE_IN]),
     (INS_ADC, [TYPE_REG OR TYPE_BYTE OR TYPE_BOTH, TYPE_MODRM OR TYPE_BYTE OR TYPE_IN]),
     (INS_ADC, [TYPE_REG OR TYPE_VWORD OR TYPE_BOTH, TYPE_MODRM OR TYPE_VWORD OR TYPE_IN]),
     (INS_ADC, [TYPE_AL OR TYPE_BOTH, TYPE_IMM OR TYPE_BYTE OR TYPE_IN]),
     (INS_ADC, [TYPE_AX OR TYPE_BOTH, TYPE_IMM OR TYPE_VWORD OR TYPE_IN]),
     (INS_PUSH, [TYPE_SS OR TYPE_IN]),
     (INS_POP, [TYPE_SS OR TYPE_OUT]),
     (INS_SBB, [TYPE_MODRM OR TYPE_BYTE OR TYPE_BOTH, TYPE_REG OR TYPE_BYTE OR TYPE_IN]),
     (INS_SBB, [TYPE_MODRM OR TYPE_VWORD OR TYPE_BOTH, TYPE_REG OR TYPE_VWORD OR TYPE_IN]),
     (INS_SBB, [TYPE_REG OR TYPE_BYTE OR TYPE_BOTH, TYPE_MODRM OR TYPE_BYTE OR TYPE_IN]),
     (INS_SBB, [TYPE_REG OR TYPE_VWORD OR TYPE_BOTH, TYPE_MODRM OR TYPE_VWORD OR TYPE_IN]),
     (INS_SBB, [TYPE_AL OR TYPE_BOTH, TYPE_IMM OR TYPE_BYTE OR TYPE_IN]),
     (INS_SBB, [TYPE_AX OR TYPE_BOTH, TYPE_IMM OR TYPE_VWORD OR TYPE_IN]),
     (INS_PUSH, [TYPE_DS OR TYPE_IN]),
     (INS_POP, [TYPE_DS OR TYPE_OUT]),
     (INS_AND, [TYPE_MODRM OR TYPE_BYTE OR TYPE_BOTH, TYPE_REG OR TYPE_BYTE OR TYPE_IN]),
     (INS_AND, [TYPE_MODRM OR TYPE_VWORD OR TYPE_BOTH, TYPE_REG OR TYPE_VWORD OR TYPE_IN]),
     (INS_AND, [TYPE_REG OR TYPE_BYTE OR TYPE_BOTH, TYPE_MODRM OR TYPE_BYTE OR TYPE_IN]),
     (INS_AND, [TYPE_REG OR TYPE_VWORD OR TYPE_BOTH, TYPE_MODRM OR TYPE_VWORD OR TYPE_IN]),
     (INS_AND, [TYPE_AL OR TYPE_BOTH, TYPE_IMM OR TYPE_BYTE OR TYPE_IN]),
     (INS_AND, [TYPE_AX OR TYPE_BOTH, TYPE_IMM OR TYPE_VWORD OR TYPE_IN]),
     (INS_ES, [TYPE_PREFIX]),
     (INS_DAA, []),
     (INS_SUB, [TYPE_MODRM OR TYPE_BYTE OR TYPE_BOTH, TYPE_REG OR TYPE_BYTE OR TYPE_IN]),
     (INS_SUB, [TYPE_MODRM OR TYPE_VWORD OR TYPE_BOTH, TYPE_REG OR TYPE_VWORD OR TYPE_IN]),
     (INS_SUB, [TYPE_REG OR TYPE_BYTE OR TYPE_BOTH, TYPE_MODRM OR TYPE_BYTE OR TYPE_IN]),
     (INS_SUB, [TYPE_REG OR TYPE_VWORD OR TYPE_BOTH, TYPE_MODRM OR TYPE_VWORD OR TYPE_IN]),
     (INS_SUB, [TYPE_AL OR TYPE_BOTH, TYPE_IMM OR TYPE_BYTE OR TYPE_IN]),
     (INS_SUB, [TYPE_AX OR TYPE_BOTH, TYPE_IMM OR TYPE_VWORD OR TYPE_IN]),
     (INS_CS, [TYPE_PREFIX]),
     (INS_DAS, []),
     (INS_XOR, [TYPE_MODRM OR TYPE_BYTE OR TYPE_BOTH, TYPE_REG OR TYPE_BYTE OR TYPE_IN]),
     (INS_XOR, [TYPE_MODRM OR TYPE_VWORD OR TYPE_BOTH, TYPE_REG OR TYPE_VWORD OR TYPE_IN]),
     (INS_XOR, [TYPE_REG OR TYPE_BYTE OR TYPE_BOTH, TYPE_MODRM OR TYPE_BYTE OR TYPE_IN]),
     (INS_XOR, [TYPE_REG OR TYPE_VWORD OR TYPE_BOTH, TYPE_MODRM OR TYPE_VWORD OR TYPE_IN]),
     (INS_XOR, [TYPE_AL OR TYPE_BOTH, TYPE_IMM OR TYPE_BYTE OR TYPE_IN]),
     (INS_XOR, [TYPE_AX OR TYPE_BOTH, TYPE_IMM OR TYPE_VWORD OR TYPE_IN]),
     (INS_SS, [TYPE_PREFIX]),
     (INS_AAA, []),
     (INS_CMP, [TYPE_MODRM OR TYPE_BYTE OR TYPE_IN, TYPE_REG OR TYPE_BYTE OR TYPE_IN]),
     (INS_CMP, [TYPE_MODRM OR TYPE_VWORD OR TYPE_IN, TYPE_REG OR TYPE_VWORD OR TYPE_IN]),
     (INS_CMP, [TYPE_REG OR TYPE_BYTE OR TYPE_IN, TYPE_MODRM OR TYPE_BYTE OR TYPE_IN]),
     (INS_CMP, [TYPE_REG OR TYPE_VWORD OR TYPE_IN, TYPE_MODRM OR TYPE_VWORD OR TYPE_IN]),
     (INS_CMP, [TYPE_AL OR TYPE_IN, TYPE_IMM OR TYPE_BYTE OR TYPE_IN]),
     (INS_CMP, [TYPE_AX OR TYPE_IN, TYPE_IMM OR TYPE_VWORD OR TYPE_IN]),
     (INS_DS, [TYPE_PREFIX]),
     (INS_AAS, []),
     (INS_INC, [TYPE_AX OR TYPE_BOTH]),
     (INS_INC, [TYPE_CX OR TYPE_BOTH]),
     (INS_INC, [TYPE_DX OR TYPE_BOTH]),
     (INS_INC, [TYPE_BX OR TYPE_BOTH]),
     (INS_INC, [TYPE_SP OR TYPE_BOTH]),
     (INS_INC, [TYPE_BP OR TYPE_BOTH]),
     (INS_INC, [TYPE_SI OR TYPE_BOTH]),
     (INS_INC, [TYPE_DI OR TYPE_BOTH]),
     (INS_DEC, [TYPE_AX OR TYPE_BOTH]),
     (INS_DEC, [TYPE_CX OR TYPE_BOTH]),
     (INS_DEC, [TYPE_DX OR TYPE_BOTH]),
     (INS_DEC, [TYPE_BX OR TYPE_BOTH]),
     (INS_DEC, [TYPE_SP OR TYPE_BOTH]),
     (INS_DEC, [TYPE_BP OR TYPE_BOTH]),
     (INS_DEC, [TYPE_SI OR TYPE_BOTH]),
     (INS_DEC, [TYPE_DI OR TYPE_BOTH]),
     (INS_PUSH, [TYPE_AX OR TYPE_IN]),
     (INS_PUSH, [TYPE_CX OR TYPE_IN]),
     (INS_PUSH, [TYPE_DX OR TYPE_IN]),
     (INS_PUSH, [TYPE_BX OR TYPE_IN]),
     (INS_PUSH, [TYPE_SP OR TYPE_IN]),
     (INS_PUSH, [TYPE_BP OR TYPE_IN]),
     (INS_PUSH, [TYPE_SI OR TYPE_IN]),
     (INS_PUSH, [TYPE_DI OR TYPE_IN]),
     (INS_POP, [TYPE_AX OR TYPE_OUT]),
     (INS_POP, [TYPE_CX OR TYPE_OUT]),
     (INS_POP, [TYPE_DX OR TYPE_OUT]),
     (INS_POP, [TYPE_BX OR TYPE_OUT]),
     (INS_POP, [TYPE_SP OR TYPE_OUT]),
     (INS_POP, [TYPE_BP OR TYPE_OUT]),
     (INS_POP, [TYPE_SI OR TYPE_OUT]),
     (INS_POP, [TYPE_DI OR TYPE_OUT]),
     (INS_PUSHA, [TYPE_NONE OR TYPE_80286]),
     (INS_POPA, [TYPE_NONE OR TYPE_80286]),
     (INS_BOUND, [TYPE_REG OR TYPE_VWORD OR TYPE_IN OR TYPE_80286, TYPE_MODRM OR TYPE_2WORD OR TYPE_IN]),
     (INS_ARPL, [TYPE_MODRM OR TYPE_WORD OR TYPE_OUT, TYPE_REG OR TYPE_WORD OR TYPE_IN]),
     (INS_FS, [TYPE_PREFIX OR TYPE_80386]),
     (INS_GS, [TYPE_PREFIX OR TYPE_80386]),
     (INS_OS, [TYPE_PREFIX OR TYPE_80386]),
     (INS_AS, [TYPE_PREFIX OR TYPE_80386]),
     (INS_PUSH, [TYPE_IMM OR TYPE_VWORD OR TYPE_IN OR TYPE_80286]),
     (INS_IMUL, [TYPE_REG OR TYPE_WORD OR TYPE_BOTH OR TYPE_80286, TYPE_MODRM OR TYPE_WORDIW OR TYPE_IN]),
     (INS_PUSH, [TYPE_IMM OR TYPE_SBYTE OR TYPE_IN OR TYPE_80286]),
     (INS_IMUL, [TYPE_REG OR TYPE_WORD OR TYPE_BOTH OR TYPE_80286, TYPE_MODRM OR TYPE_WORDIB OR TYPE_IN]),
     (INS_INS, [TYPE_ESDI OR TYPE_BYTE OR TYPE_OUT OR TYPE_80286, TYPE_DX OR TYPE_IN]),
     (INS_INS, [TYPE_ESDI OR TYPE_VWORD OR TYPE_OUT OR TYPE_80286, TYPE_DX OR TYPE_IN]),
     (INS_OUTS, [TYPE_DX OR TYPE_IN OR TYPE_80286, TYPE_DSSI OR TYPE_BYTE OR TYPE_IN]),
     (INS_OUTS, [TYPE_DX OR TYPE_IN OR TYPE_80286, TYPE_DSSI OR TYPE_VWORD OR TYPE_IN]),
     (INS_JO, [TYPE_IMMREL OR TYPE_BYTE OR TYPE_IN]),
     (INS_JNO, [TYPE_IMMREL OR TYPE_BYTE OR TYPE_IN]),
     (INS_JC, [TYPE_IMMREL OR TYPE_BYTE OR TYPE_IN]),
     (INS_JNC, [TYPE_IMMREL OR TYPE_BYTE OR TYPE_IN]),
     (INS_JZ, [TYPE_IMMREL OR TYPE_BYTE OR TYPE_IN]),
     (INS_JNZ, [TYPE_IMMREL OR TYPE_BYTE OR TYPE_IN]),
     (INS_JBE, [TYPE_IMMREL OR TYPE_BYTE OR TYPE_IN]),
     (INS_JA, [TYPE_IMMREL OR TYPE_BYTE OR TYPE_IN]),
     (INS_JS, [TYPE_IMMREL OR TYPE_BYTE OR TYPE_IN]),
     (INS_JNS, [TYPE_IMMREL OR TYPE_BYTE OR TYPE_IN]),
     (INS_JP, [TYPE_IMMREL OR TYPE_BYTE OR TYPE_IN]),
     (INS_JNP, [TYPE_IMMREL OR TYPE_BYTE OR TYPE_IN]),
     (INS_JL, [TYPE_IMMREL OR TYPE_BYTE OR TYPE_IN]),
     (INS_JGE, [TYPE_IMMREL OR TYPE_BYTE OR TYPE_IN]),
     (INS_JLE, [TYPE_IMMREL OR TYPE_BYTE OR TYPE_IN]),
     (INS_JG, [TYPE_IMMREL OR TYPE_BYTE OR TYPE_IN]),
     (INS_GRP1B, [TYPE_MODRM OR TYPE_BYTE OR TYPE_BOTH, TYPE_IMM OR TYPE_BYTE OR TYPE_IN]),
     (INS_GRP1W, [TYPE_MODRM OR TYPE_VWORD OR TYPE_BOTH, TYPE_IMM OR TYPE_VWORD OR TYPE_IN]),
     (INS_GRP1B, [TYPE_MODRM OR TYPE_BYTE OR TYPE_BOTH, TYPE_IMM OR TYPE_BYTE OR TYPE_IN]),
     (INS_GRP1SW, [TYPE_MODRM OR TYPE_VWORD OR TYPE_BOTH, TYPE_IMM OR TYPE_BYTE OR TYPE_IN]),
     (INS_TEST, [TYPE_MODRM OR TYPE_BYTE OR TYPE_IN, TYPE_REG OR TYPE_BYTE OR TYPE_IN]),
     (INS_TEST, [TYPE_MODRM OR TYPE_VWORD OR TYPE_IN, TYPE_REG OR TYPE_VWORD OR TYPE_IN]),
     (INS_XCHG, [TYPE_REG OR TYPE_BYTE OR TYPE_BOTH, TYPE_MODRM OR TYPE_BYTE OR TYPE_BOTH]),
     (INS_XCHG, [TYPE_REG OR TYPE_VWORD OR TYPE_BOTH, TYPE_MODRM OR TYPE_VWORD OR TYPE_BOTH]),
     (INS_MOV, [TYPE_MODRM OR TYPE_BYTE OR TYPE_OUT, TYPE_REG OR TYPE_BYTE OR TYPE_IN]),
     (INS_MOV, [TYPE_MODRM OR TYPE_VWORD OR TYPE_OUT, TYPE_REG OR TYPE_VWORD OR TYPE_IN]),
     (INS_MOV, [TYPE_REG OR TYPE_BYTE OR TYPE_OUT, TYPE_MODRM OR TYPE_BYTE OR TYPE_IN]),
     (INS_MOV, [TYPE_REG OR TYPE_VWORD OR TYPE_OUT, TYPE_MODRM OR TYPE_VWORD OR TYPE_IN]),
     (INS_MOV, [TYPE_MODRM OR TYPE_VWORD OR TYPE_OUT, TYPE_SEGREG OR TYPE_WORD OR TYPE_IN]),
     (INS_LEA, [TYPE_REG OR TYPE_VWORD OR TYPE_OUT, TYPE_MODMEM OR TYPE_VWORD]),
     (INS_MOV, [TYPE_SEGREG OR TYPE_WORD OR TYPE_OUT, TYPE_MODRM OR TYPE_VWORD OR TYPE_IN]),
     (INS_POP, [TYPE_MODRM OR TYPE_VWORD OR TYPE_OUT]),
     (INS_NOP, []),
     (INS_XCHG, [TYPE_AX OR TYPE_BOTH, TYPE_CX OR TYPE_BOTH]),
     (INS_XCHG, [TYPE_AX OR TYPE_BOTH, TYPE_DX OR TYPE_BOTH]),
     (INS_XCHG, [TYPE_AX OR TYPE_BOTH, TYPE_BX OR TYPE_BOTH]),
     (INS_XCHG, [TYPE_AX OR TYPE_BOTH, TYPE_SP OR TYPE_BOTH]),
     (INS_XCHG, [TYPE_AX OR TYPE_BOTH, TYPE_BP OR TYPE_BOTH]),
     (INS_XCHG, [TYPE_AX OR TYPE_BOTH, TYPE_SI OR TYPE_BOTH]),
     (INS_XCHG, [TYPE_AX OR TYPE_BOTH, TYPE_DI OR TYPE_BOTH]),
     (INS_CBW, []),
     (INS_CWD, []),
     (INS_CALL, [TYPE_IMM OR TYPE_FARP OR TYPE_IN]),
     (INS_WAIT, []),
     (INS_PUSHF, []),
     (INS_POPF, []),
     (INS_SAHF, []),
     (INS_LAHF, []),
     (INS_MOV, [TYPE_AL OR TYPE_OUT, TYPE_IMMOFF OR TYPE_BYTE OR TYPE_IN]),
     (INS_MOV, [TYPE_AX OR TYPE_OUT, TYPE_IMMOFF OR TYPE_VWORD OR TYPE_IN]),
     (INS_MOV, [TYPE_IMMOFF OR TYPE_BYTE OR TYPE_OUT, TYPE_AL OR TYPE_IN]),
     (INS_MOV, [TYPE_IMMOFF OR TYPE_VWORD OR TYPE_OUT, TYPE_AX OR TYPE_IN]),
     (INS_MOVSB, [TYPE_ESDI OR TYPE_BYTE OR TYPE_OUT, TYPE_DSSI OR TYPE_BYTE OR TYPE_IN]),
     (INS_MOVSW, [TYPE_ESDI OR TYPE_VWORD OR TYPE_OUT, TYPE_DSSI OR TYPE_VWORD OR TYPE_IN]),
     (INS_CMPSB, [TYPE_ESDI OR TYPE_BYTE OR TYPE_IN, TYPE_DSSI OR TYPE_BYTE OR TYPE_IN]),
     (INS_CMPSW, [TYPE_ESDI OR TYPE_VWORD OR TYPE_IN, TYPE_DSSI OR TYPE_VWORD OR TYPE_IN]),
     (INS_TEST, [TYPE_AL OR TYPE_IN, TYPE_IMM OR TYPE_BYTE OR TYPE_IN]),
     (INS_TEST, [TYPE_AX OR TYPE_IN, TYPE_IMM OR TYPE_VWORD OR TYPE_IN]),
     (INS_STOSB, [TYPE_ESDI OR TYPE_BYTE OR TYPE_OUT, TYPE_AL OR TYPE_IN]),
     (INS_STOSW, [TYPE_ESDI OR TYPE_VWORD OR TYPE_OUT, TYPE_AX OR TYPE_IN]),
     (INS_LODSB, [TYPE_AL OR TYPE_OUT, TYPE_DSSI OR TYPE_BYTE OR TYPE_IN]),
     (INS_LODSW, [TYPE_AX OR TYPE_OUT, TYPE_DSSI OR TYPE_VWORD OR TYPE_IN]),
     (INS_SCASB, [TYPE_AL OR TYPE_IN, TYPE_ESDI OR TYPE_BYTE OR TYPE_IN]),
     (INS_SCASW, [TYPE_AX OR TYPE_IN, TYPE_ESDI OR TYPE_VWORD OR TYPE_IN]),
     (INS_MOV, [TYPE_AL OR TYPE_OUT, TYPE_IMM OR TYPE_BYTE OR TYPE_IN]),
     (INS_MOV, [TYPE_CL OR TYPE_OUT, TYPE_IMM OR TYPE_BYTE OR TYPE_IN]),
     (INS_MOV, [TYPE_DL OR TYPE_OUT, TYPE_IMM OR TYPE_BYTE OR TYPE_IN]),
     (INS_MOV, [TYPE_BL OR TYPE_OUT, TYPE_IMM OR TYPE_BYTE OR TYPE_IN]),
     (INS_MOV, [TYPE_AH OR TYPE_OUT, TYPE_IMM OR TYPE_BYTE OR TYPE_IN]),
     (INS_MOV, [TYPE_CH OR TYPE_OUT, TYPE_IMM OR TYPE_BYTE OR TYPE_IN]),
     (INS_MOV, [TYPE_DH OR TYPE_OUT, TYPE_IMM OR TYPE_BYTE OR TYPE_IN]),
     (INS_MOV, [TYPE_BH OR TYPE_OUT, TYPE_IMM OR TYPE_BYTE OR TYPE_IN]),
     (INS_MOV, [TYPE_AX OR TYPE_OUT, TYPE_IMM OR TYPE_VWORD OR TYPE_IN]),
     (INS_MOV, [TYPE_CX OR TYPE_OUT, TYPE_IMM OR TYPE_VWORD OR TYPE_IN]),
     (INS_MOV, [TYPE_DX OR TYPE_OUT, TYPE_IMM OR TYPE_VWORD OR TYPE_IN]),
     (INS_MOV, [TYPE_BX OR TYPE_OUT, TYPE_IMM OR TYPE_VWORD OR TYPE_IN]),
     (INS_MOV, [TYPE_SP OR TYPE_OUT, TYPE_IMM OR TYPE_VWORD OR TYPE_IN]),
     (INS_MOV, [TYPE_BP OR TYPE_OUT, TYPE_IMM OR TYPE_VWORD OR TYPE_IN]),
     (INS_MOV, [TYPE_SI OR TYPE_OUT, TYPE_IMM OR TYPE_VWORD OR TYPE_IN]),
     (INS_MOV, [TYPE_DI OR TYPE_OUT, TYPE_IMM OR TYPE_VWORD OR TYPE_IN]),
     (INS_GRP2B, [TYPE_MODRM OR TYPE_BYTE OR TYPE_BOTH OR TYPE_80186, TYPE_IMM OR TYPE_BYTE OR TYPE_IN]),
     (INS_GRP2W, [TYPE_MODRM OR TYPE_VWORD OR TYPE_BOTH OR TYPE_80186, TYPE_IMM OR TYPE_BYTE OR TYPE_IN]),
     (INS_RET, [TYPE_IMM OR TYPE_WORD OR TYPE_IN]),
     (INS_RET, []),
     (INS_LES, [TYPE_REG OR TYPE_VWORD OR TYPE_OUT, TYPE_MODMEM OR TYPE_SEGP OR TYPE_IN]),
     (INS_LDS, [TYPE_REG OR TYPE_VWORD OR TYPE_OUT, TYPE_MODMEM OR TYPE_SEGP OR TYPE_IN]),
     (INS_MOV, [TYPE_MODRM OR TYPE_BYTE OR TYPE_OUT, TYPE_IMM OR TYPE_BYTE OR TYPE_IN]),
     (INS_MOV, [TYPE_MODRM OR TYPE_VWORD OR TYPE_OUT, TYPE_IMM OR TYPE_VWORD OR TYPE_IN]),
     (INS_ENTER, [TYPE_IMM OR TYPE_WORD OR TYPE_IN OR TYPE_80286, TYPE_IMM OR TYPE_BYTE OR TYPE_IN]),
     (INS_LEAVE, [TYPE_NONE OR TYPE_80286]),
     (INS_RETF, [TYPE_IMM OR TYPE_WORD OR TYPE_IN]),
     (INS_RETF, []),
     (INS_INT3, []),
     (INS_INT, [TYPE_IMM OR TYPE_BYTE OR TYPE_IN]),
     (INS_INTO, []),
     (INS_IRET, []),
     (INS_GRP2B1, [TYPE_MODRM OR TYPE_BYTE OR TYPE_BOTH, TYPE_ONE OR TYPE_BYTE OR TYPE_IN]),
     (INS_GRP2W1, [TYPE_MODRM OR TYPE_VWORD OR TYPE_BOTH, TYPE_ONE OR TYPE_BYTE OR TYPE_IN]),
     (INS_GRP2BC, [TYPE_MODRM OR TYPE_BYTE OR TYPE_BOTH, TYPE_IMPREG OR TYPE_CL OR TYPE_IN]),
     (INS_GRP2WC, [TYPE_MODRM OR TYPE_VWORD OR TYPE_BOTH, TYPE_IMPREG OR TYPE_CL OR TYPE_IN]),
     (INS_AAM, [TYPE_IMM OR TYPE_BYTE]),
     (INS_AAD, [TYPE_IMM OR TYPE_BYTE]),
     (INS_SALC, []),
     (INS_XLAT, []),
     (INS_ESC, [TYPE_MODRM OR TYPE_VWORD OR TYPE_IN]),
     (INS_ESC, [TYPE_MODRM OR TYPE_VWORD OR TYPE_IN]),
     (INS_ESC, [TYPE_MODRM OR TYPE_VWORD OR TYPE_IN]),
     (INS_ESC, [TYPE_MODRM OR TYPE_VWORD OR TYPE_IN]),
     (INS_ESC, [TYPE_MODRM OR TYPE_VWORD OR TYPE_IN]),
     (INS_ESC, [TYPE_MODRM OR TYPE_VWORD OR TYPE_IN]),
     (INS_ESC, [TYPE_MODRM OR TYPE_VWORD OR TYPE_IN]),
     (INS_ESC, [TYPE_MODRM OR TYPE_VWORD OR TYPE_IN]),
     (INS_LOOPNZ, [TYPE_IMMREL OR TYPE_BYTE OR TYPE_IN]),
     (INS_LOOPZ, [TYPE_IMMREL OR TYPE_BYTE OR TYPE_IN]),
     (INS_LOOP, [TYPE_IMMREL OR TYPE_BYTE OR TYPE_IN]),
     (INS_JCXZ, [TYPE_IMMREL OR TYPE_BYTE OR TYPE_IN]),
     (INS_IN, [TYPE_AL OR TYPE_OUT, TYPE_IMM OR TYPE_BYTE OR TYPE_IN]),
     (INS_IN, [TYPE_AX OR TYPE_OUT, TYPE_IMM OR TYPE_BYTE OR TYPE_IN]),
     (INS_OUT, [TYPE_IMM OR TYPE_BYTE OR TYPE_IN, TYPE_AL OR TYPE_IN]),
     (INS_OUT, [TYPE_IMM OR TYPE_BYTE OR TYPE_IN, TYPE_AX OR TYPE_IN]),
     (INS_CALL, [TYPE_IMMREL OR TYPE_VWORD OR TYPE_IN]),
     (INS_JMP, [TYPE_IMMREL OR TYPE_VWORD OR TYPE_IN]),
     (INS_JMP, [TYPE_IMM OR TYPE_FARP OR TYPE_IN]),
     (INS_JMP, [TYPE_IMMREL OR TYPE_BYTE OR TYPE_IN]),
     (INS_IN, [TYPE_AL OR TYPE_OUT, TYPE_DX OR TYPE_IN]),
     (INS_IN, [TYPE_AX OR TYPE_OUT, TYPE_DX OR TYPE_IN]),
     (INS_OUT, [TYPE_DX OR TYPE_IN, TYPE_AL OR TYPE_IN]),
     (INS_OUT, [TYPE_DX OR TYPE_IN, TYPE_AX OR TYPE_IN]),
     (INS_LOCK, [TYPE_PREFIX]),
     (INS_NONE, []),
     (INS_REPNZ, [TYPE_PREFIX]),
     (INS_REPZ, [TYPE_PREFIX]),
     (INS_HLT, []),
     (INS_CMC, []),
     (INS_GRP3B, [TYPE_MODRM OR TYPE_BYTE OR TYPE_BOTH]),
     (INS_GRP3W, [TYPE_MODRM OR TYPE_VWORD OR TYPE_BOTH]),
     (INS_CLC, []),
     (INS_STC, []),
     (INS_CLI, []),
     (INS_STI, []),
     (INS_CLD, []),
     (INS_STD, []),
     (INS_GRP4B, [TYPE_MODRM OR TYPE_BYTE OR TYPE_BOTH]),
     (INS_GRP4W, [TYPE_MODRM OR TYPE_VWORD OR TYPE_BOTH])]"

definition aaOp0FDescs :: "(int \<times> OpDesc) list" where
  "aaOp0FDescs = [
     (0x00, (INS_GRP6, [TYPE_MODRM OR TYPE_WORD OR TYPE_BOTH])),
     (0x01, (INS_GRP7, [TYPE_MODRM OR TYPE_WORD OR TYPE_BOTH])),
     (0x02, (INS_LAR, [TYPE_REG OR TYPE_WORD OR TYPE_OUT OR TYPE_80286, TYPE_MODMEM OR TYPE_WORD OR TYPE_IN])),
     (0x03, (INS_LSL, [TYPE_REG OR TYPE_WORD OR TYPE_OUT OR TYPE_80286, TYPE_MODMEM OR TYPE_WORD OR TYPE_IN])),
     (0x05, (INS_LOADALL, [TYPE_80286])),
     (0x06, (INS_CLTS, [TYPE_80286])),
     (0x20, (INS_MOV, [TYPE_MODREG OR TYPE_DWORD OR TYPE_OUT OR TYPE_80386, TYPE_CTLREG OR TYPE_DWORD OR TYPE_IN])),
     (0x21, (INS_MOV, [TYPE_MODREG OR TYPE_DWORD OR TYPE_OUT OR TYPE_80386, TYPE_DBGREG OR TYPE_DWORD OR TYPE_IN])),
     (0x22, (INS_MOV, [TYPE_CTLREG OR TYPE_DWORD OR TYPE_OUT OR TYPE_80386, TYPE_MODREG OR TYPE_DWORD OR TYPE_IN])),
     (0x23, (INS_MOV, [TYPE_DBGREG OR TYPE_DWORD OR TYPE_OUT OR TYPE_80386, TYPE_MODREG OR TYPE_DWORD OR TYPE_IN])),
     (0x24, (INS_MOV, [TYPE_MODREG OR TYPE_DWORD OR TYPE_OUT OR TYPE_80386, TYPE_TSTREG OR TYPE_DWORD OR TYPE_IN])),
     (0x26, (INS_MOV, [TYPE_TSTREG OR TYPE_DWORD OR TYPE_OUT OR TYPE_80386, TYPE_MODREG OR TYPE_DWORD OR TYPE_IN])),
     (0x80, (INS_JO, [TYPE_IMMREL OR TYPE_VWORD OR TYPE_IN OR TYPE_80386])),
     (0x81, (INS_JNO, [TYPE_IMMREL OR TYPE_VWORD OR TYPE_IN OR TYPE_80386])),
     (0x82, (INS_JC, [TYPE_IMMREL OR TYPE_VWORD OR TYPE_IN OR TYPE_80386])),
     (0x83, (INS_JNC, [TYPE_IMMREL OR TYPE_VWORD OR TYPE_IN OR TYPE_80386])),
     (0x84, (INS_JZ, [TYPE_IMMREL OR TYPE_VWORD OR TYPE_IN OR TYPE_80386])),
     (0x85, (INS_JNZ, [TYPE_IMMREL OR TYPE_VWORD OR TYPE_IN OR TYPE_80386])),
     (0x86, (INS_JBE, [TYPE_IMMREL OR TYPE_VWORD OR TYPE_IN OR TYPE_80386])),
     (0x87, (INS_JA, [TYPE_IMMREL OR TYPE_VWORD OR TYPE_IN OR TYPE_80386])),
     (0x88, (INS_JS, [TYPE_IMMREL OR TYPE_VWORD OR TYPE_IN OR TYPE_80386])),
     (0x89, (INS_JNS, [TYPE_IMMREL OR TYPE_VWORD OR TYPE_IN OR TYPE_80386])),
     (0x8A, (INS_JP, [TYPE_IMMREL OR TYPE_VWORD OR TYPE_IN OR TYPE_80386])),
     (0x8B, (INS_JNP, [TYPE_IMMREL OR TYPE_VWORD OR TYPE_IN OR TYPE_80386])),
     (0x8C, (INS_JL, [TYPE_IMMREL OR TYPE_VWORD OR TYPE_IN OR TYPE_80386])),
     (0x8D, (INS_JGE, [TYPE_IMMREL OR TYPE_VWORD OR TYPE_IN OR TYPE_80386])),
     (0x8E, (INS_JLE, [TYPE_IMMREL OR TYPE_VWORD OR TYPE_IN OR TYPE_80386])),
     (0x8F, (INS_JG, [TYPE_IMMREL OR TYPE_VWORD OR TYPE_IN OR TYPE_80386])),
     (0x90, (INS_SETO, [TYPE_MODRM OR TYPE_BYTE OR TYPE_OUT OR TYPE_80386])),
     (0x91, (INS_SETNO, [TYPE_MODRM OR TYPE_BYTE OR TYPE_OUT OR TYPE_80386])),
     (0x92, (INS_SETC, [TYPE_MODRM OR TYPE_BYTE OR TYPE_OUT OR TYPE_80386])),
     (0x93, (INS_SETNC, [TYPE_MODRM OR TYPE_BYTE OR TYPE_OUT OR TYPE_80386])),
     (0x94, (INS_SETZ, [TYPE_MODRM OR TYPE_BYTE OR TYPE_OUT OR TYPE_80386])),
     (0x95, (INS_SETNZ, [TYPE_MODRM OR TYPE_BYTE OR TYPE_OUT OR TYPE_80386])),
     (0x96, (INS_SETBE, [TYPE_MODRM OR TYPE_BYTE OR TYPE_OUT OR TYPE_80386])),
     (0x97, (INS_SETNBE, [TYPE_MODRM OR TYPE_BYTE OR TYPE_OUT OR TYPE_80386])),
     (0x98, (INS_SETS, [TYPE_MODRM OR TYPE_BYTE OR TYPE_OUT OR TYPE_80386])),
     (0x99, (INS_SETNS, [TYPE_MODRM OR TYPE_BYTE OR TYPE_OUT OR TYPE_80386])),
     (0x9A, (INS_SETP, [TYPE_MODRM OR TYPE_BYTE OR TYPE_OUT OR TYPE_80386])),
     (0x9B, (INS_SETNP, [TYPE_MODRM OR TYPE_BYTE OR TYPE_OUT OR TYPE_80386])),
     (0x9C, (INS_SETL, [TYPE_MODRM OR TYPE_BYTE OR TYPE_OUT OR TYPE_80386])),
     (0x9D, (INS_SETGE, [TYPE_MODRM OR TYPE_BYTE OR TYPE_OUT OR TYPE_80386])),
     (0x9E, (INS_SETLE, [TYPE_MODRM OR TYPE_BYTE OR TYPE_OUT OR TYPE_80386])),
     (0x9F, (INS_SETG, [TYPE_MODRM OR TYPE_BYTE OR TYPE_OUT OR TYPE_80386])),
     (0xA0, (INS_PUSH, [TYPE_FS OR TYPE_IN OR TYPE_80386])),
     (0xA1, (INS_POP, [TYPE_FS OR TYPE_OUT OR TYPE_80386])),
     (0xA3, (INS_BT, [TYPE_MODRM OR TYPE_VWORD OR TYPE_IN OR TYPE_80386, TYPE_REG OR TYPE_VWORD OR TYPE_IN])),
     (0xA4, (INS_SHLD, [TYPE_MODRM OR TYPE_VWORD OR TYPE_OUT OR TYPE_80386, TYPE_REG OR TYPE_VWORD OR TYPE_IN, TYPE_IMM OR TYPE_BYTE OR TYPE_IN])),
     (0xA5, (INS_SHLD, [TYPE_MODRM OR TYPE_VWORD OR TYPE_OUT OR TYPE_80386, TYPE_REG OR TYPE_VWORD OR TYPE_IN, TYPE_IMPREG OR TYPE_CL OR TYPE_IN])),
     (0xA8, (INS_PUSH, [TYPE_GS OR TYPE_IN OR TYPE_80386])),
     (0xA9, (INS_POP, [TYPE_GS OR TYPE_OUT OR TYPE_80386])),
     (0xAB, (INS_BTS, [TYPE_MODRM OR TYPE_VWORD OR TYPE_OUT OR TYPE_80386, TYPE_REG OR TYPE_VWORD OR TYPE_IN])),
     (0xAC, (INS_SHRD, [TYPE_MODRM OR TYPE_VWORD OR TYPE_OUT OR TYPE_80386, TYPE_REG OR TYPE_VWORD OR TYPE_IN, TYPE_IMM OR TYPE_BYTE OR TYPE_IN])),
     (0xAD, (INS_SHRD, [TYPE_MODRM OR TYPE_VWORD OR TYPE_OUT OR TYPE_80386, TYPE_REG OR TYPE_VWORD OR TYPE_IN, TYPE_IMPREG OR TYPE_CL OR TYPE_IN])),
     (0xAF, (INS_IMUL, [TYPE_MODRM OR TYPE_VWORD OR TYPE_BOTH OR TYPE_80386, TYPE_REG OR TYPE_VWORD OR TYPE_IN])),
     (0xB2, (INS_LSS, [TYPE_REG OR TYPE_VWORD OR TYPE_OUT, TYPE_MODMEM OR TYPE_SEGP OR TYPE_IN])),
     (0xB3, (INS_BTR, [TYPE_MODRM OR TYPE_VWORD OR TYPE_OUT OR TYPE_80386, TYPE_REG OR TYPE_VWORD OR TYPE_IN])),
     (0xB4, (INS_LFS, [TYPE_REG OR TYPE_VWORD OR TYPE_OUT, TYPE_MODMEM OR TYPE_SEGP OR TYPE_IN])),
     (0xB5, (INS_LGS, [TYPE_REG OR TYPE_VWORD OR TYPE_OUT, TYPE_MODMEM OR TYPE_SEGP OR TYPE_IN])),
     (0xB6, (INS_MOVZX, [TYPE_REG OR TYPE_VWORD OR TYPE_OUT OR TYPE_80386, TYPE_MODRM OR TYPE_BYTE OR TYPE_IN])),
     (0xB7, (INS_MOVZX, [TYPE_REG OR TYPE_DWORD OR TYPE_OUT OR TYPE_80386, TYPE_MODRM OR TYPE_WORD OR TYPE_IN])),
     (0xBA, (INS_GRP8, [TYPE_MODRM OR TYPE_VWORD OR TYPE_BOTH OR TYPE_80386, TYPE_IMM OR TYPE_BYTE OR TYPE_IN])),
     (0xBB, (INS_BTC, [TYPE_MODRM OR TYPE_VWORD OR TYPE_OUT OR TYPE_80386, TYPE_REG OR TYPE_VWORD OR TYPE_IN])),
     (0xBC, (INS_BSF, [TYPE_REG OR TYPE_VWORD OR TYPE_OUT OR TYPE_80386, TYPE_MODRM OR TYPE_VWORD OR TYPE_IN])),
     (0xBD, (INS_BSR, [TYPE_REG OR TYPE_VWORD OR TYPE_OUT OR TYPE_80386, TYPE_MODRM OR TYPE_VWORD OR TYPE_IN])),
     (0xBE, (INS_MOVSX, [TYPE_REG OR TYPE_VWORD OR TYPE_OUT OR TYPE_80386, TYPE_MODRM OR TYPE_BYTE OR TYPE_IN])),
     (0xBF, (INS_MOVSX, [TYPE_REG OR TYPE_DWORD OR TYPE_OUT OR TYPE_80386, TYPE_MODRM OR TYPE_WORD OR TYPE_IN]))]"

definition aaGrpDescs :: "OpDesc list list" where
  "aaGrpDescs = [
     [
      (INS_ADD, [TYPE_MODRM OR TYPE_BYTE OR TYPE_BOTH, TYPE_IMM OR TYPE_BYTE OR TYPE_IN]),
      (INS_OR, [TYPE_MODRM OR TYPE_BYTE OR TYPE_BOTH, TYPE_IMM OR TYPE_BYTE OR TYPE_IN]),
      (INS_ADC, [TYPE_MODRM OR TYPE_BYTE OR TYPE_BOTH, TYPE_IMM OR TYPE_BYTE OR TYPE_IN]),
      (INS_SBB, [TYPE_MODRM OR TYPE_BYTE OR TYPE_BOTH, TYPE_IMM OR TYPE_BYTE OR TYPE_IN]),
      (INS_AND, [TYPE_MODRM OR TYPE_BYTE OR TYPE_BOTH, TYPE_IMM OR TYPE_BYTE OR TYPE_IN]),
      (INS_SUB, [TYPE_MODRM OR TYPE_BYTE OR TYPE_BOTH, TYPE_IMM OR TYPE_BYTE OR TYPE_IN]),
      (INS_XOR, [TYPE_MODRM OR TYPE_BYTE OR TYPE_BOTH, TYPE_IMM OR TYPE_BYTE OR TYPE_IN]),
      (INS_CMP, [TYPE_MODRM OR TYPE_BYTE OR TYPE_IN, TYPE_IMM OR TYPE_BYTE OR TYPE_IN])],
     [
      (INS_ADD, [TYPE_MODRM OR TYPE_VWORD OR TYPE_BOTH, TYPE_IMM OR TYPE_VWORD OR TYPE_IN]),
      (INS_OR, [TYPE_MODRM OR TYPE_VWORD OR TYPE_BOTH, TYPE_IMM OR TYPE_VWORD OR TYPE_IN]),
      (INS_ADC, [TYPE_MODRM OR TYPE_VWORD OR TYPE_BOTH, TYPE_IMM OR TYPE_VWORD OR TYPE_IN]),
      (INS_SBB, [TYPE_MODRM OR TYPE_VWORD OR TYPE_BOTH, TYPE_IMM OR TYPE_VWORD OR TYPE_IN]),
      (INS_AND, [TYPE_MODRM OR TYPE_VWORD OR TYPE_BOTH, TYPE_IMM OR TYPE_VWORD OR TYPE_IN]),
      (INS_SUB, [TYPE_MODRM OR TYPE_VWORD OR TYPE_BOTH, TYPE_IMM OR TYPE_VWORD OR TYPE_IN]),
      (INS_XOR, [TYPE_MODRM OR TYPE_VWORD OR TYPE_BOTH, TYPE_IMM OR TYPE_VWORD OR TYPE_IN]),
      (INS_CMP, [TYPE_MODRM OR TYPE_VWORD OR TYPE_IN, TYPE_IMM OR TYPE_VWORD OR TYPE_IN])],
     [
      (INS_ADD, [TYPE_MODRM OR TYPE_VWORD OR TYPE_BOTH, TYPE_IMM OR TYPE_SBYTE OR TYPE_IN]),
      (INS_OR, [TYPE_MODRM OR TYPE_VWORD OR TYPE_BOTH, TYPE_IMM OR TYPE_SBYTE OR TYPE_IN]),
      (INS_ADC, [TYPE_MODRM OR TYPE_VWORD OR TYPE_BOTH, TYPE_IMM OR TYPE_SBYTE OR TYPE_IN]),
      (INS_SBB, [TYPE_MODRM OR TYPE_VWORD OR TYPE_BOTH, TYPE_IMM OR TYPE_SBYTE OR TYPE_IN]),
      (INS_AND, [TYPE_MODRM OR TYPE_VWORD OR TYPE_BOTH, TYPE_IMM OR TYPE_SBYTE OR TYPE_IN]),
      (INS_SUB, [TYPE_MODRM OR TYPE_VWORD OR TYPE_BOTH, TYPE_IMM OR TYPE_SBYTE OR TYPE_IN]),
      (INS_XOR, [TYPE_MODRM OR TYPE_VWORD OR TYPE_BOTH, TYPE_IMM OR TYPE_SBYTE OR TYPE_IN]),
      (INS_CMP, [TYPE_MODRM OR TYPE_VWORD OR TYPE_IN, TYPE_IMM OR TYPE_SBYTE OR TYPE_IN])],
     [
      (INS_ROL, [TYPE_MODRM OR TYPE_BYTE OR TYPE_BOTH OR TYPE_80286, TYPE_IMM OR TYPE_BYTE OR TYPE_IN]),
      (INS_ROR, [TYPE_MODRM OR TYPE_BYTE OR TYPE_BOTH OR TYPE_80286, TYPE_IMM OR TYPE_BYTE OR TYPE_IN]),
      (INS_RCL, [TYPE_MODRM OR TYPE_BYTE OR TYPE_BOTH OR TYPE_80286, TYPE_IMM OR TYPE_BYTE OR TYPE_IN]),
      (INS_RCR, [TYPE_MODRM OR TYPE_BYTE OR TYPE_BOTH OR TYPE_80286, TYPE_IMM OR TYPE_BYTE OR TYPE_IN]),
      (INS_SHL, [TYPE_MODRM OR TYPE_BYTE OR TYPE_BOTH OR TYPE_80286, TYPE_IMM OR TYPE_BYTE OR TYPE_IN]),
      (INS_SHR, [TYPE_MODRM OR TYPE_BYTE OR TYPE_BOTH OR TYPE_80286, TYPE_IMM OR TYPE_BYTE OR TYPE_IN]),
      aOpDescUndefined,
      (INS_SAR, [TYPE_MODRM OR TYPE_BYTE OR TYPE_BOTH OR TYPE_80286, TYPE_IMM OR TYPE_BYTE OR TYPE_IN])],
     [
      (INS_ROL, [TYPE_MODRM OR TYPE_VWORD OR TYPE_BOTH OR TYPE_80286, TYPE_IMM OR TYPE_BYTE OR TYPE_IN]),
      (INS_ROR, [TYPE_MODRM OR TYPE_VWORD OR TYPE_BOTH OR TYPE_80286, TYPE_IMM OR TYPE_BYTE OR TYPE_IN]),
      (INS_RCL, [TYPE_MODRM OR TYPE_VWORD OR TYPE_BOTH OR TYPE_80286, TYPE_IMM OR TYPE_BYTE OR TYPE_IN]),
      (INS_RCR, [TYPE_MODRM OR TYPE_VWORD OR TYPE_BOTH OR TYPE_80286, TYPE_IMM OR TYPE_BYTE OR TYPE_IN]),
      (INS_SHL, [TYPE_MODRM OR TYPE_VWORD OR TYPE_BOTH OR TYPE_80286, TYPE_IMM OR TYPE_BYTE OR TYPE_IN]),
      (INS_SHR, [TYPE_MODRM OR TYPE_VWORD OR TYPE_BOTH OR TYPE_80286, TYPE_IMM OR TYPE_BYTE OR TYPE_IN]),
      aOpDescUndefined,
      (INS_SAR, [TYPE_MODRM OR TYPE_VWORD OR TYPE_BOTH OR TYPE_80286, TYPE_IMM OR TYPE_BYTE OR TYPE_IN])],
     [
      (INS_ROL, [TYPE_MODRM OR TYPE_BYTE OR TYPE_BOTH, TYPE_ONE OR TYPE_BYTE OR TYPE_IN]),
      (INS_ROR, [TYPE_MODRM OR TYPE_BYTE OR TYPE_BOTH, TYPE_ONE OR TYPE_BYTE OR TYPE_IN]),
      (INS_RCL, [TYPE_MODRM OR TYPE_BYTE OR TYPE_BOTH, TYPE_ONE OR TYPE_BYTE OR TYPE_IN]),
      (INS_RCR, [TYPE_MODRM OR TYPE_BYTE OR TYPE_BOTH, TYPE_ONE OR TYPE_BYTE OR TYPE_IN]),
      (INS_SHL, [TYPE_MODRM OR TYPE_BYTE OR TYPE_BOTH, TYPE_ONE OR TYPE_BYTE OR TYPE_IN]),
      (INS_SHR, [TYPE_MODRM OR TYPE_BYTE OR TYPE_BOTH, TYPE_ONE OR TYPE_BYTE OR TYPE_IN]),
      aOpDescUndefined,
      (INS_SAR, [TYPE_MODRM OR TYPE_BYTE OR TYPE_BOTH, TYPE_ONE OR TYPE_BYTE OR TYPE_IN])],
     [
      (INS_ROL, [TYPE_MODRM OR TYPE_VWORD OR TYPE_BOTH, TYPE_ONE OR TYPE_BYTE OR TYPE_IN]),
      (INS_ROR, [TYPE_MODRM OR TYPE_VWORD OR TYPE_BOTH, TYPE_ONE OR TYPE_BYTE OR TYPE_IN]),
      (INS_RCL, [TYPE_MODRM OR TYPE_VWORD OR TYPE_BOTH, TYPE_ONE OR TYPE_BYTE OR TYPE_IN]),
      (INS_RCR, [TYPE_MODRM OR TYPE_VWORD OR TYPE_BOTH, TYPE_ONE OR TYPE_BYTE OR TYPE_IN]),
      (INS_SHL, [TYPE_MODRM OR TYPE_VWORD OR TYPE_BOTH, TYPE_ONE OR TYPE_BYTE OR TYPE_IN]),
      (INS_SHR, [TYPE_MODRM OR TYPE_VWORD OR TYPE_BOTH, TYPE_ONE OR TYPE_BYTE OR TYPE_IN]),
      aOpDescUndefined,
      (INS_SAR, [TYPE_MODRM OR TYPE_VWORD OR TYPE_BOTH, TYPE_ONE OR TYPE_BYTE OR TYPE_IN])],
     [
      (INS_ROL, [TYPE_MODRM OR TYPE_BYTE OR TYPE_BOTH, TYPE_IMPREG OR TYPE_CL OR TYPE_IN]),
      (INS_ROR, [TYPE_MODRM OR TYPE_BYTE OR TYPE_BOTH, TYPE_IMPREG OR TYPE_CL OR TYPE_IN]),
      (INS_RCL, [TYPE_MODRM OR TYPE_BYTE OR TYPE_BOTH, TYPE_IMPREG OR TYPE_CL OR TYPE_IN]),
      (INS_RCR, [TYPE_MODRM OR TYPE_BYTE OR TYPE_BOTH, TYPE_IMPREG OR TYPE_CL OR TYPE_IN]),
      (INS_SHL, [TYPE_MODRM OR TYPE_BYTE OR TYPE_BOTH, TYPE_IMPREG OR TYPE_CL OR TYPE_IN]),
      (INS_SHR, [TYPE_MODRM OR TYPE_BYTE OR TYPE_BOTH, TYPE_IMPREG OR TYPE_CL OR TYPE_IN]),
      aOpDescUndefined,
      (INS_SAR, [TYPE_MODRM OR TYPE_BYTE OR TYPE_BOTH, TYPE_IMPREG OR TYPE_CL OR TYPE_IN])],
     [
      (INS_ROL, [TYPE_MODRM OR TYPE_VWORD OR TYPE_BOTH, TYPE_IMPREG OR TYPE_CL OR TYPE_IN]),
      (INS_ROR, [TYPE_MODRM OR TYPE_VWORD OR TYPE_BOTH, TYPE_IMPREG OR TYPE_CL OR TYPE_IN]),
      (INS_RCL, [TYPE_MODRM OR TYPE_VWORD OR TYPE_BOTH, TYPE_IMPREG OR TYPE_CL OR TYPE_IN]),
      (INS_RCR, [TYPE_MODRM OR TYPE_VWORD OR TYPE_BOTH, TYPE_IMPREG OR TYPE_CL OR TYPE_IN]),
      (INS_SHL, [TYPE_MODRM OR TYPE_VWORD OR TYPE_BOTH, TYPE_IMPREG OR TYPE_CL OR TYPE_IN]),
      (INS_SHR, [TYPE_MODRM OR TYPE_VWORD OR TYPE_BOTH, TYPE_IMPREG OR TYPE_CL OR TYPE_IN]),
      aOpDescUndefined,
      (INS_SAR, [TYPE_MODRM OR TYPE_VWORD OR TYPE_BOTH, TYPE_IMPREG OR TYPE_CL OR TYPE_IN])],
     [
      (INS_TEST, [TYPE_MODRM OR TYPE_BYTE OR TYPE_IN, TYPE_IMM OR TYPE_BYTE OR TYPE_IN]),
      aOpDescUndefined,
      (INS_NOT, [TYPE_MODRM OR TYPE_BYTE OR TYPE_BOTH]),
      (INS_NEG, [TYPE_MODRM OR TYPE_BYTE OR TYPE_BOTH]),
      (INS_MUL, [TYPE_MODRM OR TYPE_BYTE OR TYPE_IN]),
      (INS_IMUL, [TYPE_MODRM OR TYPE_BYTE OR TYPE_BOTH]),
      (INS_DIV, [TYPE_MODRM OR TYPE_BYTE OR TYPE_IN]),
      (INS_IDIV, [TYPE_MODRM OR TYPE_BYTE OR TYPE_BOTH])],
     [
      (INS_TEST, [TYPE_MODRM OR TYPE_VWORD OR TYPE_IN, TYPE_IMM OR TYPE_VWORD OR TYPE_IN]),
      aOpDescUndefined,
      (INS_NOT, [TYPE_MODRM OR TYPE_VWORD OR TYPE_BOTH]),
      (INS_NEG, [TYPE_MODRM OR TYPE_VWORD OR TYPE_BOTH]),
      (INS_MUL, [TYPE_MODRM OR TYPE_VWORD OR TYPE_IN]),
      (INS_IMUL, [TYPE_MODRM OR TYPE_VWORD OR TYPE_BOTH]),
      (INS_DIV, [TYPE_MODRM OR TYPE_VWORD OR TYPE_IN]),
      (INS_IDIV, [TYPE_MODRM OR TYPE_VWORD OR TYPE_BOTH])],
     [
      (INS_INC, [TYPE_MODRM OR TYPE_BYTE OR TYPE_BOTH]),
      (INS_DEC, [TYPE_MODRM OR TYPE_BYTE OR TYPE_BOTH]),
      aOpDescUndefined,
      aOpDescUndefined,
      aOpDescUndefined,
      aOpDescUndefined,
      aOpDescUndefined,
      aOpDescUndefined],
     [
      (INS_INC, [TYPE_MODRM OR TYPE_VWORD OR TYPE_BOTH]),
      (INS_DEC, [TYPE_MODRM OR TYPE_VWORD OR TYPE_BOTH]),
      (INS_CALL, [TYPE_MODRM OR TYPE_VWORD OR TYPE_IN]),
      (INS_CALL, [TYPE_MODRM OR TYPE_FARP OR TYPE_IN]),
      (INS_JMP, [TYPE_MODRM OR TYPE_VWORD OR TYPE_IN]),
      (INS_JMP, [TYPE_MODRM OR TYPE_FARP OR TYPE_IN]),
      (INS_PUSH, [TYPE_MODRM OR TYPE_VWORD OR TYPE_IN]),
      aOpDescUndefined],
     [],
     [
      (INS_SLDT, [TYPE_MODRM OR TYPE_WORD OR TYPE_OUT OR TYPE_80286]),
      (INS_STR, [TYPE_MODRM OR TYPE_WORD OR TYPE_OUT OR TYPE_80286]),
      (INS_LLDT, [TYPE_MODRM OR TYPE_WORD OR TYPE_IN OR TYPE_80286]),
      (INS_LTR, [TYPE_MODRM OR TYPE_WORD OR TYPE_IN OR TYPE_80286]),
      (INS_VERR, [TYPE_MODRM OR TYPE_WORD OR TYPE_IN OR TYPE_80286]),
      (INS_VERW, [TYPE_MODRM OR TYPE_WORD OR TYPE_IN OR TYPE_80286]),
      aOpDescUndefined,
      aOpDescUndefined],
     [
      (INS_SGDT, [TYPE_MODRM OR TYPE_WORD OR TYPE_OUT OR TYPE_80286]),
      (INS_SIDT, [TYPE_MODRM OR TYPE_WORD OR TYPE_OUT OR TYPE_80286]),
      (INS_LGDT, [TYPE_MODRM OR TYPE_WORD OR TYPE_IN OR TYPE_80286]),
      (INS_LIDT, [TYPE_MODRM OR TYPE_WORD OR TYPE_IN OR TYPE_80286]),
      (INS_SMSW, [TYPE_MODRM OR TYPE_WORD OR TYPE_OUT OR TYPE_80286]),
      aOpDescUndefined,
      (INS_LMSW, [TYPE_MODRM OR TYPE_WORD OR TYPE_IN OR TYPE_80286]),
      aOpDescUndefined],
     [
      aOpDescUndefined,
      aOpDescUndefined,
      aOpDescUndefined,
      aOpDescUndefined,
      (INS_BT, [TYPE_MODRM OR TYPE_VWORD OR TYPE_IN OR TYPE_80386, TYPE_IMM OR TYPE_BYTE OR TYPE_IN]),
      (INS_BTS, [TYPE_MODRM OR TYPE_VWORD OR TYPE_OUT OR TYPE_80386, TYPE_IMM OR TYPE_BYTE OR TYPE_IN]),
      (INS_BTR, [TYPE_MODRM OR TYPE_VWORD OR TYPE_OUT OR TYPE_80386, TYPE_IMM OR TYPE_BYTE OR TYPE_IN]),
      (INS_BTC, [TYPE_MODRM OR TYPE_VWORD OR TYPE_OUT OR TYPE_80386, TYPE_IMM OR TYPE_BYTE OR TYPE_IN])]]"

section \<open>The instruction decoder\<close>

text \<open>
  Modelled from the spec: \<open>str.toHex\<close> and \<open>str.pad\<close> (strlib.js is not among the
  sources).  \<open>str.toHex(n, cch)\<close> is the upper-case hexadecimal text of the low
  \<open>cch\<close> digits of \<open>n\<close>, 8 digits when \<open>cch\<close> is omitted (0 here), question marks for
  a \<open>null\<close> number; \<open>str.pad(s, cch)\<close> fills \<open>s\<close> with blanks on the right up to
  \<open>cch\<close> characters.
\<close>

definition hexChar :: "int \<Rightarrow> char" where
  "hexChar d = (if d < 10 then char_of (48 + d) else char_of (55 + d))"

fun hexDigits :: "nat \<Rightarrow> int \<Rightarrow> string" where
  "hexDigits 0 n = []"
| "hexDigits (Suc cch) n = hexDigits cch (js_sar n 4) @ [hexChar (js_and n 0xf)]"

definition str_toHex :: "int option \<Rightarrow> nat \<Rightarrow> string" where
  "str_toHex n cch =
     (let c = (if cch = 0 then 8 else cch)
      in case n of None \<Rightarrow> replicate c (CHR ''?'') | Some v \<Rightarrow> hexDigits c v)"

definition str_pad :: "string \<Rightarrow> nat \<Rightarrow> string" where
  "str_pad s cch = s @ replicate (cch - length s) (CHR '' '')"

text \<open>The decimal text of a number (\<open>toString\<close>, string concatenation).\<close>

fun decNat :: "nat \<Rightarrow> string" where
  "decNat n = (if n < 10 then [char_of (48 + n)] else decNat (n div 10) @ [char_of (48 + n mod 10)])"

definition decStr :: "int \<Rightarrow> string" where
  "decStr i = (if i < 0 then CHR ''-'' # decNat (nat (- i)) else decNat (nat i))"

definition hexOffset :: "int \<Rightarrow> int option \<Rightarrow> bool \<Rightarrow> string" where
  "hexOffset offset s fAddr =
     (case s of
        Some v \<Rightarrow> str_toHex (Some v) 4 @ '':'' @
                  str_toHex (Some offset) (if js_and offset (js_not 0xffff) \<noteq> 0 \<or> fAddr then 8 else 4)
      | None \<Rightarrow> str_toHex (Some offset) 0)"

definition hexAddr :: "DbgAddr \<Rightarrow> string" where
  "hexAddr dbgAddr =
     (if sel dbgAddr = None then ''%'' @ str_toHex (addr dbgAddr) 0
      else hexOffset (off dbgAddr) (sel dbgAddr) (fAddr32 dbgAddr))"

text \<open>
  The opcodes named by \<open>X86.OPCODE\<close> (x86.js is not among the sources) are the bytes
  under which the opcode table lists the instruction: \<open>OS:\<close> at 0x66, \<open>AS:\<close> at
  0x67, \<open>MOVSB\<close> to \<open>CMPSW\<close> at 0xA4 to 0xA7, \<open>STOSB\<close> to \<open>SCASW\<close> at 0xAA to
  0xAF.
\<close>

definition OPCODE_OS :: int where "OPCODE_OS = 0x66"

definition OPCODE_AS :: int where "OPCODE_AS = 0x67"

definition OPCODE_MOVSB :: int where "OPCODE_MOVSB = 0xA4"

definition OPCODE_CMPSW :: int where "OPCODE_CMPSW = 0xA7"

definition OPCODE_STOSB :: int where "OPCODE_STOSB = 0xAA"

definition OPCODE_SCASW :: int where "OPCODE_SCASW = 0xAF"

definition isStringIns :: "int \<Rightarrow> bool" where
  "isStringIns bOpcode =
     (bOpcode \<ge> OPCODE_MOVSB \<and> bOpcode \<le> OPCODE_CMPSW \<or>
      bOpcode \<ge> OPCODE_STOSB \<and> bOpcode \<le> OPCODE_SCASW)"

definition initAddrSize :: "Debugger \<Rightarrow> DbgAddr \<Rightarrow> bool \<Rightarrow> nat \<Rightarrow> DbgAddr" where
  "initAddrSize D dbgAddr fNonPrefix c =
     (let d1 = dbgAddr\<lparr>cOverrides := Some c\<rparr>;
          d2 = (if fNonPrefix
                then d1\<lparr>fData32 := (dataSize (segCS (cpu D)) = 4),
                        fAddr32 := (addrSize (segCS (cpu D)) = 4)\<rparr>
                else d1)
      in d2\<lparr>fComplete := Some fNonPrefix\<rparr>)"

text \<open>An array element: \<open>None\<close> where JavaScript gives \<open>undefined\<close>.\<close>

definition elemAt :: "'a list \<Rightarrow> int \<Rightarrow> 'a option" where
  "elemAt xs i = (if 0 \<le> i \<and> nat i < length xs then Some (xs ! nat i) else None)"

text \<open>An entry of \<open>Debugger.REGS\<close>: \<open>None\<close> for \<open>null\<close> and \<open>undefined\<close>.\<close>

definition regName :: "int \<Rightarrow> string option" where
  "regName bReg = (case elemAt REGS bReg of None \<Rightarrow> None | Some r \<Rightarrow> r)"

definition getRegOperand :: "Debugger \<Rightarrow> int \<Rightarrow> int \<Rightarrow> DbgAddr \<Rightarrow> string option" where
  "getRegOperand D bReg otype dbgAddr =
     (let typeMode = js_and otype TYPE_MODE
      in if typeMode = TYPE_SEGREG then
           (if bReg > REG_GS \<or> bReg \<ge> REG_FS \<and> model (cpu D) < MODEL_80386 then Some ''??''
            else regName (bReg + REG_SEG))
         else if typeMode = TYPE_CTLREG then regName (bReg + REG_CR0)
         else if typeMode = TYPE_DBGREG then regName (bReg + REG_DR0)
         else if typeMode = TYPE_TSTREG then regName (bReg + REG_TR0)
         else
           (let typeSize = js_and otype TYPE_SIZE;
                r1 = (if typeSize \<ge> TYPE_WORD \<and> bReg < REG_AX
                      then bReg + (REG_AX - REG_AL) else bReg);
                r2 = (if typeSize \<ge> TYPE_WORD \<and>
                         (typeSize = TYPE_DWORD \<or> typeSize = TYPE_VWORD \<and> fData32 dbgAddr)
                      then r1 + (REG_EAX - REG_AX) else r1)
            in regName r2))"

text \<open>
  The operand functions that read from memory return the operand text and the advanced
  address.  An index into \<open>RMS\<close> is a 3-bit field, or one plus 8, so it is in range.
\<close>

definition getSIBOperand :: "Debugger \<Rightarrow> int \<Rightarrow> DbgAddr \<Rightarrow> string \<times> DbgAddr" where
  "getSIBOperand D bMod dbgAddr =
     (let (bSIB, d1) = getByte D dbgAddr 1;
          bScale = js_sar bSIB 6;
          bIndex = js_and (js_sar bSIB 3) 0x7;
          bBase = js_and bSIB 0x7;
          s1 = (if bMod \<noteq> 0 \<or> bBase \<noteq> 5 then RMS ! nat (bBase + 8) else []);
          s2 = (if bIndex \<noteq> 4 then
                  (if s1 \<noteq> [] then s1 @ ''+'' else s1) @ RMS ! nat (bIndex + 8) @
                  (if bScale \<noteq> 0 then ''*'' @ decStr (js_shl 0x1 (nat (bScale mod 32))) else [])
                else s1)
      in if bMod = 0 \<and> bBase = 5 then
           (let (l, d2) = getLong D d1 4
            in ((if s2 \<noteq> [] then s2 @ ''+'' else s2) @ str_toHex (Some l) 0, d2))
         else (s2, d1))"

definition sizePrefix :: "int \<Rightarrow> string" where
  "sizePrefix t =
     (if t = TYPE_FARP then ''FAR''
      else if t = TYPE_BYTE then ''BYTE''
      else if t = TYPE_WORD then ''WORD''
      else if t = TYPE_DWORD then ''DWORD''
      else [])"

definition getModRMOperand :: "Debugger \<Rightarrow> int \<Rightarrow> int \<Rightarrow> nat \<Rightarrow> DbgAddr \<Rightarrow> string option \<times> DbgAddr" where
  "getModRMOperand D bModRM otype cOperands dbgAddr =
     (let bMod0 = js_sar bModRM 6;
          bRM0 = js_and bModRM 0x7
      in if bMod0 < 3 then
           (let (bMod, s1, d1) =
                  (if bMod0 = 0 \<and> (\<not> fAddr32 dbgAddr \<and> bRM0 = 6 \<or> fAddr32 dbgAddr \<and> bRM0 = 5)
                   then (2, [], dbgAddr)
                   else
                     (let (bRM, sSIB, d') =
                            (if fAddr32 dbgAddr then
                               (if bRM0 \<noteq> 4 then (bRM0 + 8, [], dbgAddr)
                                else (let (sOp, d'') = getSIBOperand D bMod0 dbgAddr
                                      in (bRM0, sOp, d'')))
                             else (bRM0, [], dbgAddr))
                      in (bMod0, if sSIB = [] then RMS ! nat bRM else sSIB, d')));
                (s2, d2) =
                  (if bMod = 1 then
                     (let (disp, d') = getByte D d1 1
                      in if js_and disp 0x80 = 0
                         then (s1 @ ''+'' @ str_toHex (Some disp) 2, d')
                         else (s1 @ ''-'' @ str_toHex (Some (- js_sar (js_shl disp 24) 24)) 2, d'))
                   else if bMod = 2 then
                     (let s' = (if s1 \<noteq> [] then s1 @ ''+'' else s1)
                      in if \<not> fAddr32 d1
                         then (let (disp, d') = getShort D d1 2 in (s' @ str_toHex (Some disp) 4, d'))
                         else (let (disp, d') = getLong D d1 4 in (s' @ str_toHex (Some disp) 0, d')))
                   else (s1, d1));
                s3 = ''['' @ s2 @ '']'';
                s4 = (if cOperands = 1 then
                        (let t0 = js_and otype TYPE_SIZE;
                             t1 = (if t0 = TYPE_VWORD
                                   then (if fData32 d2 then TYPE_DWORD else TYPE_WORD) else t0);
                             sPrefix = sizePrefix t1
                         in if sPrefix \<noteq> [] then sPrefix @ '' '' @ s3 else s3)
                      else s3)
            in (Some s4, d2))
         else (getRegOperand D bRM0 otype dbgAddr, dbgAddr))"

definition getImmOperand :: "Debugger \<Rightarrow> int \<Rightarrow> DbgAddr \<Rightarrow> string \<times> DbgAddr" where
  "getImmOperand D otype dbgAddr =
     (let typeSize = js_and otype TYPE_SIZE
      in if typeSize = TYPE_BYTE then
           (if js_and otype TYPE_BOTH \<noteq> 0
            then (let (b, d1) = getByte D dbgAddr 1 in (str_toHex (Some b) 2, d1))
            else ('' '', dbgAddr))
         else if typeSize = TYPE_SBYTE then
           (let (b, d1) = getByte D dbgAddr 1
            in (str_toHex (Some (js_sar (js_shl b 24) 24)) (if fData32 d1 then 8 else 4), d1))
         else if (typeSize = TYPE_VWORD \<or> typeSize = TYPE_2WORD) \<and> fData32 dbgAddr then
           (let (l, d1) = getLong D dbgAddr 4 in (str_toHex (Some l) 0, d1))
         else if typeSize = TYPE_VWORD \<or> typeSize = TYPE_2WORD \<or> typeSize = TYPE_WORD then
           (let (w, d1) = getShort D dbgAddr 2 in (str_toHex (Some w) 4, d1))
         else if typeSize = TYPE_FARP then
           (let (w, d1) = getWord D dbgAddr True;
                (s, d2) = getShort D d1 2
            in (hexAddr (newAddr D w (Some s) None (fProt d2) (Some (fData32 d2)) (Some (fAddr32 d2))),
                d2))
         else (''imm('' @ str_toHex (Some otype) 4 @ '')'', dbgAddr))"

text \<open>
  One operand of \<open>getInstruction\<close>'s operand loop: its text (\<open>None\<close> or empty when
  there is none), \<open>bModRM\<close> (\<open>-1\<close> until the byte is read) and the address.
\<close>

definition getOperand :: "Debugger \<Rightarrow> nat \<Rightarrow> int \<Rightarrow> int \<Rightarrow> DbgAddr \<Rightarrow> string option \<times> int \<times> DbgAddr" where
  "getOperand D cOperands otype bModRM0 dbgAddr =
     (let typeSize = js_and otype TYPE_SIZE;
          typeMode = js_and otype TYPE_MODE
      in if typeMode \<ge> TYPE_MODRM then
           (let (bModRM, d1) = (if bModRM0 < 0 then getByte D dbgAddr 1 else (bModRM0, dbgAddr))
            in if typeMode < TYPE_MODREG then
                 (let (sOp, d2) = getModRMOperand D bModRM otype cOperands d1 in (sOp, bModRM, d2))
               else if typeMode = TYPE_MODREG then
                 (getRegOperand D (js_and bModRM 0x7) otype d1, bModRM, d1)
               else (getRegOperand D (js_and (js_sar bModRM 3) 0x7) otype d1, bModRM, d1))
         else if typeMode = TYPE_ONE then (Some ''1'', bModRM0, dbgAddr)
         else if typeMode = TYPE_IMM then
           (let (sOp, d1) = getImmOperand D otype dbgAddr in (Some sOp, bModRM0, d1))
         else if typeMode = TYPE_IMMOFF then
           (if \<not> fAddr32 dbgAddr
            then (let (offset, d1) = getShort D dbgAddr 2
                  in (Some (''['' @ str_toHex (Some offset) 4 @ '']''), bModRM0, d1))
            else (let (offset, d1) = getLong D dbgAddr 4
                  in (Some (''['' @ str_toHex (Some offset) 8 @ '']''), bModRM0, d1)))
         else if typeMode = TYPE_IMMREL then
           (let (disp, d1) =
                  (if typeSize = TYPE_BYTE
                   then (let (b, d') = getByte D dbgAddr 1 in (js_sar (js_shl b 24) 24, d'))
                   else getWord D dbgAddr True);
                offset = js_and (off d1 + disp) (if fData32 d1 then -1 else 0xffff);
                sSymbol = findSymbolAtAddr D (newAddr D offset (sel d1) None None None None)
            in (Some (if sSymbol \<noteq> [] then sSymbol
                      else str_toHex (Some offset) (if fData32 d1 then 8 else 4)),
                bModRM0, d1))
         else if typeMode = TYPE_IMPREG then
           (getRegOperand D (js_sar (js_and otype TYPE_IREG) 8) otype dbgAddr, bModRM0, dbgAddr)
         else if typeMode = TYPE_IMPSEG then
           (getRegOperand D (js_sar (js_and otype TYPE_IREG) 8) TYPE_SEGREG dbgAddr, bModRM0, dbgAddr)
         else if typeMode = TYPE_DSSI then (Some ''DS:[SI]'', bModRM0, dbgAddr)
         else if typeMode = TYPE_ESDI then (Some ''ES:[DI]'', bModRM0, dbgAddr)
         else (Some [], bModRM0, dbgAddr))"

text \<open>
  The state of the operand loop: the address, \<open>bModRM\<close>, \<open>typeCPU\<close>, \<open>fNonPrefix\<close>
  and \<open>sOperands\<close>.  \<open>operandLoop\<close> runs the loop over the operand types still to do;
  an operand whose text is empty or missing ends it with \<open>sOperands = "INVALID"\<close>.
\<close>

record OperandState =
  osAddr :: DbgAddr
  osModRM :: int
  osTypeCPU :: "int option"
  osNonPrefix :: bool
  osOperands :: string

fun operandLoop :: "Debugger \<Rightarrow> nat \<Rightarrow> int list \<Rightarrow> OperandState \<Rightarrow> OperandState" where
  "operandLoop D cOperands [] st = st"
| "operandLoop D cOperands (otype # types) st =
     (let st1 = (if osTypeCPU st = None
                 then st\<lparr>osTypeCPU := Some (js_sar otype TYPE_CPU_SHIFT)\<rparr> else st);
          typeSize = js_and otype TYPE_SIZE
      in if typeSize = TYPE_NONE then operandLoop D cOperands types st1
         else if typeSize = TYPE_PREFIX
         then operandLoop D cOperands types (st1\<lparr>osNonPrefix := False\<rparr>)
         else
           (let (sOp, bModRM, d1) = getOperand D cOperands otype (osModRM st1) (osAddr st1);
                st2 = st1\<lparr>osAddr := d1, osModRM := bModRM\<rparr>
            in case sOp of
                 None \<Rightarrow> st2\<lparr>osOperands := ''INVALID''\<rparr>
               | Some sOperand \<Rightarrow>
                   if sOperand = [] then st2\<lparr>osOperands := ''INVALID''\<rparr>
                   else operandLoop D cOperands types
                          (st2\<lparr>osOperands :=
                                 (if osOperands st2 \<noteq> [] then osOperands st2 @ '','' else [])
                                 @ sOperand\<rparr>)))"

text \<open>
  The prefix loop \<open>while ((bOpcode == OS || bOpcode == AS) && cMax--)\<close>, with
  \<open>cMax\<close> starting at 4.
\<close>

fun prefixLoop :: "Debugger \<Rightarrow> nat \<Rightarrow> int \<Rightarrow> DbgAddr \<Rightarrow> bool \<Rightarrow> bool \<Rightarrow> int \<times> DbgAddr \<times> bool \<times> bool" where
  "prefixLoop D 0 bOpcode dbgAddr fDataPrefix fAddrPrefix =
     (bOpcode, dbgAddr, fDataPrefix, fAddrPrefix)"
| "prefixLoop D (Suc cMax) bOpcode dbgAddr fDataPrefix fAddrPrefix =
     (if bOpcode = OPCODE_OS \<or> bOpcode = OPCODE_AS then
        (let (d1, fD, fA) =
               (if bOpcode = OPCODE_OS then
                  (if \<not> fDataPrefix then (dbgAddr\<lparr>fData32 := \<not> fData32 dbgAddr\<rparr>, True, fAddrPrefix)
                   else (dbgAddr, fDataPrefix, fAddrPrefix))
                else
                  (if \<not> fAddrPrefix then (dbgAddr\<lparr>fAddr32 := \<not> fAddr32 dbgAddr\<rparr>, fDataPrefix, True)
                   else (dbgAddr, fDataPrefix, fAddrPrefix)));
             (b, d2) = getByte D d1 1
         in prefixLoop D cMax b d2 fD fA)
      else (bOpcode, dbgAddr, fDataPrefix, fAddrPrefix))"

text \<open>
  \<open>this.aaOpDescs\<close>, as \<open>initBus\<close> sets it up for the CPU model: the table, with
  entry 0x0F replaced from the 80186 on.  \<open>None\<close> for an index outside the table.
\<close>

definition dbgOpDescs :: "Debugger \<Rightarrow> int \<Rightarrow> OpDesc option" where
  "dbgOpDescs D bOpcode =
     (if bOpcode = 0x0F \<and> model (cpu D) \<ge> 80186 then
        Some (if model (cpu D) \<ge> 80286 then aOpDesc0F else aOpDescUndefined)
      else elemAt aaOpDescs bOpcode)"

text \<open>
  The loop that dumps the instruction's bytes:
  \<open>do { sBytes += str.toHex(this.getByte(dbgAddrIns, 1), 2); } while (dbgAddrIns.addr != dbgAddr.addr)\<close>.
  Nothing in the code bounds it, so it is a partial function: \<open>None\<close> when it does not
  end.
\<close>

partial_function (option) bytesLoop :: "Debugger \<Rightarrow> int option \<Rightarrow> DbgAddr \<Rightarrow> string \<Rightarrow> string option" where
  "bytesLoop D target dbgAddrIns sBytes =
     (if addr (snd (getByte D dbgAddrIns 1)) \<noteq> target
      then bytesLoop D target (snd (getByte D dbgAddrIns 1))
             (sBytes @ str_toHex (Some (fst (getByte D dbgAddrIns 1))) 2)
      else Some (sBytes @ str_toHex (Some (fst (getByte D dbgAddrIns 1))) 2))"

declare bytesLoop.simps [code]

text \<open>
  \<open>getInstruction\<close> returns the line \<open>sLine\<close> and leaves \<open>dbgAddr\<close> at the next
  instruction; the model also returns the mnemonic \<open>sOpcode\<close> and the operand text
  \<open>sOperands\<close> that the line is built from.  The result is \<open>None\<close> where the code
  does not return: a \<open>TypeError\<close> on a table entry that is \<open>undefined\<close>, or the byte
  dump not ending.
\<close>

record Disasm =
  sLine :: string
  sOpcode :: string
  sOperands :: string
  dbgAddrNext :: DbgAddr

definition getInstruction :: "Debugger \<Rightarrow> DbgAddr \<Rightarrow> string \<Rightarrow> int option \<Rightarrow> Disasm option" where
  "getInstruction D dbgAddr sComment nSequence =
     (let dbgAddrIns = newAddr D (off dbgAddr) (sel dbgAddr) (addr dbgAddr) (fProt dbgAddr) None None;
          (b0, d0) = getByte D dbgAddr 1;
          (bOpcode1, d1, fDataPrefix, fAddrPrefix) = prefixLoop D 4 b0 d0 False False
      in case dbgOpDescs D bOpcode1 of
           None \<Rightarrow> None
         | Some aOpDesc1 \<Rightarrow>
            (let (aOpDesc2, bOpcode, d2) =
                   (if fst aOpDesc1 = INS_OP0F then
                      (let (b, d') = getByte D d1 1
                       in (case map_of aaOp0FDescs b of None \<Rightarrow> aOpDescUndefined | Some x \<Rightarrow> x,
                           js_or bOpcode1 (js_shl b 8), d'))
                    else (aOpDesc1, bOpcode1, d1));
                 (aOpDesc3, bModRM, d3) =
                   (if fst aOpDesc2 \<ge> length INS_NAMES then
                      (let (m, d') = getByte D d2 1
                       in (Option.bind (elemAt aaGrpDescs (int (fst aOpDesc2 - length INS_NAMES)))
                             (\<lambda>grp. elemAt grp (js_and (js_sar m 3) 0x7)),
                           m, d'))
                    else (Some aOpDesc2, -1, d2))
             in case aOpDesc3 of
                  None \<Rightarrow> None
                | Some aOpDesc \<Rightarrow>
                   (case elemAt INS_NAMES (int (fst aOpDesc)) of
                      None \<Rightarrow> None
                    | Some sOpcode0 \<Rightarrow>
                       (let fString = isStringIns bOpcode;
                            types = (if fString then [] else snd aOpDesc);
                            sOpcode1 =
                              (if fString \<and> fData32 d3 \<and> sOpcode0 \<noteq> [] \<and> last sOpcode0 = CHR ''W''
                               then butlast sOpcode0 @ ''D'' else sOpcode0);
                            st = operandLoop D (length types) types
                                   \<lparr>osAddr = d3, osModRM = bModRM, osTypeCPU = None,
                                    osNonPrefix = True, osOperands = []\<rparr>;
                            d4 = osAddr st;
                            fNonPrefix = osNonPrefix st;
                            sHead = hexAddr dbgAddrIns @ '' '';
                            sBytes =
                              (if addr dbgAddrIns \<noteq> Some ADDR_INVALID \<and> addr d4 \<noteq> Some ADDR_INVALID
                               then bytesLoop D (addr d4) dbgAddrIns []
                               else Some [])
                        in case sBytes of
                             None \<Rightarrow> None
                           | Some sB \<Rightarrow>
                              (let l1 = sHead @ str_pad sB (if fAddr32 dbgAddrIns then 24 else 16)
                                        @ str_pad sOpcode1 8
                                        @ (if osOperands st \<noteq> [] then '' '' @ osOperands st else []);
                                   cpuMin = Option.bind (osTypeCPU st) (elemAt CPUS);
                                   sComment1 =
                                     (case cpuMin of
                                        None \<Rightarrow> sComment
                                      | Some c \<Rightarrow> if model (cpu D) < c then decStr c @ '' CPU only''
                                                  else sComment);
                                   l2 =
                                     (if sComment1 \<noteq> [] \<and> fNonPrefix then
                                        str_pad l1 (if fAddr32 dbgAddrIns then 74 else 56) @ '';'' @ sComment1 @
                                        (if \<not> fChecksum (cpu D) then
                                           (case nSequence of None \<Rightarrow> []
                                            | Some n \<Rightarrow> ''='' @ decStr n)
                                         else ''cycles='' @ decStr (getCycles (cpu D)) @ '' cs='' @
                                              str_toHex (Some (nChecksum (cpu D))) 0)
                                      else l1)
                               in Some \<lparr>sLine = l2, sOpcode = sOpcode1, sOperands = osOperands st,
                                         dbgAddrNext =
                                           initAddrSize D d4 fNonPrefix
                                             ((if fDataPrefix then 1 else 0) + (if fAddrPrefix then 1 else 0))\<rparr>)))))"


section \<open>A sample machine\<close>

text \<open>
  A machine on which the operations can be evaluated: an 8086 in real mode.  A
  real-mode segment register with selector \<open>s\<close> has base \<open>16 * s\<close> and limit 0xFFFF;
  its checks give \<open>ADDR_INVALID\<close> for an access that does not lie within the limit.
  \<open>sampleDbg mem\<close> is a debugger freshly attached to such a machine with memory
  \<open>mem\<close>: no breakpoints, no message category enabled, a release build.
\<close>

definition realSeg :: "int \<Rightarrow> X86Seg" where
  "realSeg s =
     \<lparr>checkRead = (\<lambda>offset n. if 0 \<le> offset \<and> offset + n \<le> 0x10000
                                then 16 * s + offset else ADDR_INVALID),
      checkWrite = (\<lambda>offset n. if 0 \<le> offset \<and> offset + n \<le> 0x10000
                                 then 16 * s + offset else ADDR_INVALID),
      addrMask = 0xffff, offMax = 0x10000, dataSize = 2, addrSize = 2\<rparr>"

definition sampleCPU :: "(int \<Rightarrow> int) \<Rightarrow> X86CPU" where
  "sampleCPU mem =
     \<lparr>protMode = False, model = 8086,
      getCS = 0, getDS = 0x40, getES = 0x40, getSS = 0x30, getFS = 0, getGS = 0,
      segCS = realSeg 0, segDS = realSeg 0x40, segES = realSeg 0x40, segSS = realSeg 0x30,
      segFS = realSeg 0, segGS = realSeg 0,
      probeAddr = mem, fChecksum = False, getCycles = 0, nChecksum = 0\<rparr>"

definition sampleDbg :: "(int \<Rightarrow> int) \<Rightarrow> Debugger" where
  "sampleDbg mem =
     \<lparr>cpu = sampleCPU mem, I386 = True, DEBUG = False,
      loadReal = (\<lambda>s. realSeg (case s of None \<Rightarrow> 0 | Some v \<Rightarrow> v)),
      loadProt = (\<lambda>s. realSeg 0),
      nSuppressBreaks = 0, maskAddr = 0xfffff,
      messageEnabled = (\<lambda>bits. False), MessagesINT = 0x1000, MessagesHALT = 0x4000,
      aBreakExec = \<lparr>tag = ''exec'', entries = []\<rparr>,
      aBreakRead = \<lparr>tag = ''read'', entries = []\<rparr>,
      aBreakWrite = \<lparr>tag = ''write'', entries = []\<rparr>,
      busBreaks = [], aOpcodeHistory = [], iOpcodeHistory = 0, aaOpcodeCounts = [],
      printed = [], findSymbolAtAddr = (\<lambda>d. [])\<rparr>"

text \<open>
  The same machine as an 80286 in protected mode: CS, DS and SS hold selectors of
  64KB segments, ES holds the null selector, whose segment admits no access, and no
  other selector can be loaded.
\<close>

definition protSeg :: "int \<Rightarrow> X86Seg" where
  "protSeg base =
     \<lparr>checkRead = (\<lambda>offset n. if 0 \<le> offset \<and> offset + n \<le> 0x10000
                                then base + offset else ADDR_INVALID),
      checkWrite = (\<lambda>offset n. if 0 \<le> offset \<and> offset + n \<le> 0x10000
                                 then base + offset else ADDR_INVALID),
      addrMask = 0xffff, offMax = 0x10000, dataSize = 2, addrSize = 2\<rparr>"

definition nullSeg :: X86Seg where
  "nullSeg =
     \<lparr>checkRead = (\<lambda>offset n. ADDR_INVALID), checkWrite = (\<lambda>offset n. ADDR_INVALID),
      addrMask = 0xffff, offMax = 0, dataSize = 2, addrSize = 2\<rparr>"

definition sampleProtDbg :: "(int \<Rightarrow> int) \<Rightarrow> Debugger" where
  "sampleProtDbg mem =
     (sampleDbg mem)
       \<lparr>cpu := (sampleCPU mem)
                 \<lparr>protMode := True, model := 80286,
                  getCS := 0x08, getDS := 0x10, getES := 0, getSS := 0x18,
                  segCS := protSeg 0x10000, segDS := protSeg 0x20000, segES := nullSeg,
                  segSS := protSeg 0x30000\<rparr>,
        loadProt := (\<lambda>s. nullSeg), maskAddr := 0xffffff\<rparr>"

text \<open>Memory holding the bytes \<open>bs\<close> from linear address \<open>base\<close> on, 0 elsewhere.\<close>

definition memAt :: "int \<Rightarrow> int list \<Rightarrow> int \<Rightarrow> int" where
  "memAt base bs a = (if base \<le> a \<and> a < base + int (length bs) then bs ! nat (a - base) else 0)"

text \<open>
  A sample \<open>parseValue\<close> for a machine whose register names are not used: a
  hexadecimal literal, cut to 32 bits.
\<close>

fun hexValue :: "char \<Rightarrow> int option" where
  "hexValue c =
     (let n = int (of_char c)
      in if 48 \<le> n \<and> n \<le> 57 then Some (n - 48)
         else if 65 \<le> n \<and> n \<le> 70 then Some (n - 55)
         else if 97 \<le> n \<and> n \<le> 102 then Some (n - 87)
         else None)"

fun hexAcc :: "int \<Rightarrow> string \<Rightarrow> int option" where
  "hexAcc acc [] = Some acc"
| "hexAcc acc (c # cs) =
     (case hexValue c of None \<Rightarrow> None | Some v \<Rightarrow> hexAcc (acc * 16 + v) cs)"

definition parseHex :: "string \<Rightarrow> int option" where
  "parseHex s = (if s = [] then None else map_option toInt32 (hexAcc 0 s))"


section \<open>Debuggers over the same machine\<close>

text \<open>
  Two debugger states agree on everything address resolution reads: the CPU, the model
  flag, the segment loaders, the suppression count and the address mask.  The breakpoint
  lists, the bus breakpoints and the history may differ.
\<close>

definition sameMachine :: "Debugger \<Rightarrow> Debugger \<Rightarrow> bool" where
  "sameMachine D D' =
     (cpu D' = cpu D \<and> I386 D' = I386 D \<and> loadReal D' = loadReal D \<and> loadProt D' = loadProt D \<and>
      nSuppressBreaks D' = nSuppressBreaks D \<and> maskAddr D' = maskAddr D)"


section \<open>Verification\<close>

text \<open>Facts for evaluating the operations on the sample machine.\<close>

lemmas sample_defs = sampleDbg_def sampleCPU_def realSeg_def getSegment_def getProtMode_def
  newAddr_def ADDR_INVALID_def Let_def

subsection \<open>The instruction decoder\<close>

text \<open>
  C1: on the sample machine with the bytes B8 34 12 at 0:0100, decoding at 0:0100 with
  16-bit operand size (\<open>fData32\<close> false) returns a line with the mnemonic \<open>MOV\<close> and
  the operand text \<open>AX,1234\<close>, and leaves the address 3 bytes further: offset
  0x100 + 3 = 259, linear address 259.
\<close>

theorem getInstruction_mov_ax_imm16:
  "getInstruction (sampleDbg (memAt 0x100 [0xB8, 0x34, 0x12]))
     (newAddr (sampleDbg (memAt 0x100 [0xB8, 0x34, 0x12])) 0x100 (Some 0) None None (Some False) None)
     [] None =
   Some \<lparr>sLine = ''0000:0100 B83412          MOV      AX,1234'',
         sOpcode = ''MOV'', sOperands = ''AX,1234'',
         dbgAddrNext =
           \<lparr>off = 0x100 + 3, sel = Some 0, addr = Some (0x100 + 3), fProt = Some False,
            fTempBreak = False, fData32 = False, fAddr32 = False,
            cOverrides = Some 0, fComplete = Some True\<rparr>\<rparr>"
  by code_simp

subsection \<open>Reads through an address that does not resolve\<close>

text \<open>
  C9: when \<open>getAddr\<close> yields the invalid sentinel for the address (asked for 1, 2 and
  4 bytes, as the three functions do), \<open>getByte\<close> returns 0xFF, \<open>getShort\<close> returns
  0xFFFF and \<open>getLong\<close> returns -1, the 32-bit value with all bits set.  The functions
  have no failing branch.
\<close>

theorem invalid_reads_all_ones:
  "(fst (getAddr D d False 1) = ADDR_INVALID \<longrightarrow> fst (getByte D d inc) = 0xFF) \<and>
   (fst (getAddr D d False 2) = ADDR_INVALID \<longrightarrow> fst (getShort D d inc) = 0xFFFF) \<and>
   (fst (getAddr D d False 4) = ADDR_INVALID \<longrightarrow>
       fst (getLong D d inc) = -1 \<and>
       (word_of_int (fst (getLong D d inc)) :: 32 word) = 0xFFFFFFFF)"
  by (simp add: getByte_def getShort_def getLong_def split: prod.splits)

theorem invalid_reads_all_ones_witness:
  "fst (getAddr (sampleDbg (\<lambda>a. 0))
          (newAddr (sampleDbg (\<lambda>a. 0)) 0x10000 (Some 0) None None None None) False 1) = ADDR_INVALID \<and>
   fst (getAddr (sampleDbg (\<lambda>a. 0))
          (newAddr (sampleDbg (\<lambda>a. 0)) 0x10000 (Some 0) None None None None) False 2) = ADDR_INVALID \<and>
   fst (getAddr (sampleDbg (\<lambda>a. 0))
          (newAddr (sampleDbg (\<lambda>a. 0)) 0x10000 (Some 0) None None None None) False 4) = ADDR_INVALID \<and>
   fst (getByte (sampleDbg (\<lambda>a. 0))
          (newAddr (sampleDbg (\<lambda>a. 0)) 0x10000 (Some 0) None None None None) 1) = 0xFF \<and>
   fst (getShort (sampleDbg (\<lambda>a. 0))
          (newAddr (sampleDbg (\<lambda>a. 0)) 0x10000 (Some 0) None None None None) 2) = 0xFFFF \<and>
   fst (getLong (sampleDbg (\<lambda>a. 0))
          (newAddr (sampleDbg (\<lambda>a. 0)) 0x10000 (Some 0) None None None None) 4) = -1"
proof -
  let ?D = "sampleDbg (\<lambda>a. 0)"
  let ?d = "newAddr ?D 0x10000 (Some 0) None None None None"
  have h: "fst (getAddr ?D ?d False 1) = ADDR_INVALID"
          "fst (getAddr ?D ?d False 2) = ADDR_INVALID"
          "fst (getAddr ?D ?d False 4) = ADDR_INVALID"
    by (simp_all add: getAddr_def sample_defs)
  from invalid_reads_all_ones [of ?D ?d 1] invalid_reads_all_ones [of ?D ?d 2]
       invalid_reads_all_ones [of ?D ?d 4] h
  show ?thesis by simp
qed

text \<open>
  C10 as stated fails: the address 0:10000 of the sample machine has no cached linear
  address; its segment is found but the offset is beyond the limit, and \<open>getByte\<close>
  leaves the sentinel in the cache.
\<close>

theorem failed_read_changes_cache_counterexample:
  "fst (getAddr (sampleDbg (\<lambda>a. 0))
          (newAddr (sampleDbg (\<lambda>a. 0)) 0x10000 (Some 0) None None None None) False 1) = ADDR_INVALID \<and>
   addr (newAddr (sampleDbg (\<lambda>a. 0)) 0x10000 (Some 0) None None None None) = None \<and>
   addr (snd (getByte (sampleDbg (\<lambda>a. 0))
                (newAddr (sampleDbg (\<lambda>a. 0)) 0x10000 (Some 0) None None None None) 1))
     = Some ADDR_INVALID"
  by (simp add: getByte_def getAddr_def sample_defs)

lemma getAddr_invalid_snd:
  "fst (getAddr D d w n) = ADDR_INVALID \<Longrightarrow>
   snd (getAddr D d w n) =
     (if addr d = None \<and> getSegment D (sel d) (fProt d) \<noteq> None
      then d\<lparr>addr := Some ADDR_INVALID\<rparr> else d)"
  by (auto simp add: getAddr_def Let_def split: option.splits)

text \<open>
  C10, amended: when the read does not resolve, the address is not advanced, whatever
  increment was asked for: offset, selector and every other field but the cached linear
  address are as before.  The cached linear address is as before too when there was
  one, or when no segment was found; when there was none and the segment was found, it
  now holds the invalid sentinel.
\<close>

theorem failed_read_not_advanced:
  "(fst (getAddr D d False 1) = ADDR_INVALID \<longrightarrow>
      snd (getByte D d inc) =
        (if addr d = None \<and> getSegment D (sel d) (fProt d) \<noteq> None
         then d\<lparr>addr := Some ADDR_INVALID\<rparr> else d)) \<and>
   (fst (getAddr D d False 2) = ADDR_INVALID \<longrightarrow>
      snd (getShort D d inc) =
        (if addr d = None \<and> getSegment D (sel d) (fProt d) \<noteq> None
         then d\<lparr>addr := Some ADDR_INVALID\<rparr> else d)) \<and>
   (fst (getAddr D d False 4) = ADDR_INVALID \<longrightarrow>
      snd (getLong D d inc) =
        (if addr d = None \<and> getSegment D (sel d) (fProt d) \<noteq> None
         then d\<lparr>addr := Some ADDR_INVALID\<rparr> else d))"
  by (simp add: getByte_def getShort_def getLong_def case_prod_beta getAddr_invalid_snd)

theorem failed_read_not_advanced_witness:
  "fst (getAddr (sampleDbg (\<lambda>a. 0))
          (newAddr (sampleDbg (\<lambda>a. 0)) 0x10000 (Some 0x40) (Some ADDR_INVALID) None None None)
          False 1) = ADDR_INVALID \<and>
   fst (getAddr (sampleDbg (\<lambda>a. 0))
          (newAddr (sampleDbg (\<lambda>a. 0)) 0x10000 (Some 0x40) None None None None) False 2) = ADDR_INVALID \<and>
   fst (getAddr (sampleDbg (\<lambda>a. 0))
          (newAddr (sampleDbg (\<lambda>a. 0)) 0x10000 (Some 0x40) None None None None) False 4) = ADDR_INVALID \<and>
   snd (getByte (sampleDbg (\<lambda>a. 0))
          (newAddr (sampleDbg (\<lambda>a. 0)) 0x10000 (Some 0x40) (Some ADDR_INVALID) None None None) 1)
     = newAddr (sampleDbg (\<lambda>a. 0)) 0x10000 (Some 0x40) (Some ADDR_INVALID) None None None \<and>
   snd (getShort (sampleDbg (\<lambda>a. 0))
          (newAddr (sampleDbg (\<lambda>a. 0)) 0x10000 (Some 0x40) None None None None) 2)
     = newAddr (sampleDbg (\<lambda>a. 0)) 0x10000 (Some 0x40) (Some ADDR_INVALID) None None None \<and>
   snd (getLong (sampleDbg (\<lambda>a. 0))
          (newAddr (sampleDbg (\<lambda>a. 0)) 0x10000 (Some 0x40) None None None None) 4)
     = newAddr (sampleDbg (\<lambda>a. 0)) 0x10000 (Some 0x40) (Some ADDR_INVALID) None None None"
proof -
  let ?D = "sampleDbg (\<lambda>a. 0)"
  let ?c = "newAddr ?D 0x10000 (Some 0x40) (Some ADDR_INVALID) None None None"
  let ?d = "newAddr ?D 0x10000 (Some 0x40) None None None None"
  have h: "fst (getAddr ?D ?c False 1) = ADDR_INVALID"
          "fst (getAddr ?D ?d False 2) = ADDR_INVALID"
          "fst (getAddr ?D ?d False 4) = ADDR_INVALID"
    by (simp_all add: getAddr_def sample_defs)
  have g: "getSegment ?D (sel ?d) (fProt ?d) \<noteq> None"
    by (simp add: sample_defs)
  from failed_read_not_advanced [of ?D ?c 1] failed_read_not_advanced [of ?D ?d 2]
       failed_read_not_advanced [of ?D ?d 4] h g
  show ?thesis by (simp add: newAddr_def)
qed


subsection \<open>The alias fold\<close>

lemma js_and_absorb: "js_and (js_and a b) b = js_and a b"
  by (simp add: js_and_def and.assoc)

lemma js_and_eq_imp_le:
  assumes "js_and a (js_and m n) = js_and m n"
  shows "js_ushr0 (js_and m n) \<le> js_ushr0 a"
proof -
  let ?w = "word_of_int a :: 32 word"
  let ?k = "(word_of_int m :: 32 word) AND word_of_int n"
  from assms have "sint (?w AND ?k) = sint ?k"
    by (simp add: js_and_def)
  then have "?w AND ?k = ?k" by (rule signed_word_eqI)
  then have "?k \<le> ?w" by (metis word_and_le2)
  then show ?thesis
    by (simp add: js_ushr0_def js_and_def word_le_def)
qed

text \<open>
  C5: \<open>mapBreakpoint\<close> is idempotent; it returns the invalid sentinel unchanged; it
  returns unchanged every address that is not in the alias region, that is, whose bits
  under the mask \<open>maskAddr & ~0xffff\<close> are not all set, and so every address that, read
  as an unsigned 32-bit number, lies below that threshold (the start of the top 64KB
  of the addressable range); and with the 16MB mask 0xFFFFFF, 0xFFFF0000 folds to
  0x000F0000.
\<close>

theorem mapBreakpoint_fold:
  "mapBreakpoint D (mapBreakpoint D a) = mapBreakpoint D a \<and>
   mapBreakpoint D ADDR_INVALID = ADDR_INVALID \<and>
   (js_and a (js_and (maskAddr D) (js_not 0xffff)) \<noteq> js_and (maskAddr D) (js_not 0xffff)
      \<longrightarrow> mapBreakpoint D a = a) \<and>
   (js_ushr0 a < js_ushr0 (js_and (maskAddr D) (js_not 0xffff)) \<longrightarrow> mapBreakpoint D a = a) \<and>
   (maskAddr D = 0xFFFFFF \<longrightarrow> mapBreakpoint D 0xFFFF0000 = 0x000F0000)"
proof (intro conjI impI)
  show "mapBreakpoint D (mapBreakpoint D a) = mapBreakpoint D a"
    by (simp add: mapBreakpoint_def Let_def js_and_absorb)
  show "mapBreakpoint D ADDR_INVALID = ADDR_INVALID"
    by (simp add: mapBreakpoint_def)
  show "mapBreakpoint D a = a"
    if "js_and a (js_and (maskAddr D) (js_not 0xffff)) \<noteq> js_and (maskAddr D) (js_not 0xffff)"
    using that by (simp add: mapBreakpoint_def Let_def)
  show "mapBreakpoint D a = a"
    if "js_ushr0 a < js_ushr0 (js_and (maskAddr D) (js_not 0xffff))"
    using that js_and_eq_imp_le [of a "maskAddr D" "js_not 0xffff"]
    by (auto simp add: mapBreakpoint_def Let_def)
  show "mapBreakpoint D 0xFFFF0000 = 0x000F0000" if "maskAddr D = 0xFFFFFF"
    using that by (simp add: mapBreakpoint_def Let_def js_and_def js_not_def ADDR_INVALID_def)
qed

theorem mapBreakpoint_fold_witness:
  "js_and 0xFE1234 (js_and (maskAddr (sampleProtDbg (\<lambda>a. 0))) (js_not 0xffff))
     \<noteq> js_and (maskAddr (sampleProtDbg (\<lambda>a. 0))) (js_not 0xffff) \<and>
   js_ushr0 0xFE1234 < js_ushr0 (js_and (maskAddr (sampleProtDbg (\<lambda>a. 0))) (js_not 0xffff)) \<and>
   maskAddr (sampleProtDbg (\<lambda>a. 0)) = 0xFFFFFF \<and>
   mapBreakpoint (sampleProtDbg (\<lambda>a. 0)) 0xFE1234 = 0xFE1234 \<and>
   mapBreakpoint (sampleProtDbg (\<lambda>a. 0)) 0xFFFF0000 = 0x000F0000"
proof -
  let ?D = "sampleProtDbg (\<lambda>a. 0)"
  have m: "maskAddr ?D = 0xFFFFFF" by (simp add: sampleProtDbg_def)
  have h1: "js_and 0xFE1234 (js_and (maskAddr ?D) (js_not 0xffff)) \<noteq> js_and (maskAddr ?D) (js_not 0xffff)"
    by (simp add: m js_and_def js_not_def)
  have h2: "js_ushr0 0xFE1234 < js_ushr0 (js_and (maskAddr ?D) (js_not 0xffff))"
    by (simp add: m js_and_def js_not_def js_ushr0_def)
  from mapBreakpoint_fold [of ?D "0xFE1234"] mapBreakpoint_fold [of ?D "0xFFFF0000"] h1 h2 m
  show ?thesis by simp
qed

subsection \<open>History and frequency tracking\<close>

text \<open>
  C3 as stated fails: with exactly one execution breakpoint (and the interrupt
  category off) the checks are enabled in a release build, since \<open>aBreakExec.length\<close>
  counts the tag at index 0.
\<close>

theorem one_breakpoint_enables_checks_counterexample:
  "\<not> DEBUG ((sampleDbg (\<lambda>a. 0))\<lparr>aBreakExec := \<lparr>tag = ''exec'',
       entries = [newAddr (sampleDbg (\<lambda>a. 0)) 0x100 (Some 0) None None None None]\<rparr>\<rparr>) \<and>
   checksEnabled ((sampleDbg (\<lambda>a. 0))\<lparr>aBreakExec := \<lparr>tag = ''exec'',
       entries = [newAddr (sampleDbg (\<lambda>a. 0)) 0x100 (Some 0) None None None None]\<rparr>\<rparr>) False \<and>
   \<not> (length (entries (aBreakExec ((sampleDbg (\<lambda>a. 0))\<lparr>aBreakExec := \<lparr>tag = ''exec'',
       entries = [newAddr (sampleDbg (\<lambda>a. 0)) 0x100 (Some 0) None None None None]\<rparr>\<rparr>))) > 1 \<or>
      messageEnabled ((sampleDbg (\<lambda>a. 0))\<lparr>aBreakExec := \<lparr>tag = ''exec'',
       entries = [newAddr (sampleDbg (\<lambda>a. 0)) 0x100 (Some 0) None None None None]\<rparr>\<rparr>)
        (MessagesINT (sampleDbg (\<lambda>a. 0))))"
  by (simp add: checksEnabled_def blength_def sampleDbg_def)

text \<open>
  C3, amended: in a release build the checks are enabled if and only if at least one
  execution breakpoint exists or the interrupt message category is active.
  \<open>historyInit\<close> leaves the history and count buffers allocated exactly when that
  holds (a history of \<open>HISTORY_LIMIT\<close> slots and 256 zeroed counters where there were
  none) and leaves them empty otherwise.
\<close>

theorem checks_enabled_iff:
  "\<not> DEBUG D \<Longrightarrow>
   (checksEnabled D fRelease \<longleftrightarrow>
      (length (entries (aBreakExec D)) \<ge> 1 \<or> messageEnabled D (MessagesINT D))) \<and>
   (checksEnabled D False \<longrightarrow>
      aOpcodeHistory (historyInit D) \<noteq> [] \<and> aaOpcodeCounts (historyInit D) \<noteq> [] \<and>
      (aOpcodeHistory D = [] \<longrightarrow> length (aOpcodeHistory (historyInit D)) = HISTORY_LIMIT) \<and>
      (aaOpcodeCounts D = [] \<longrightarrow> aaOpcodeCounts (historyInit D) = map (\<lambda>i. (i, 0)) [0..<256])) \<and>
   (\<not> checksEnabled D False \<longrightarrow>
      aOpcodeHistory (historyInit D) = [] \<and> aaOpcodeCounts (historyInit D) = [] \<and>
      iOpcodeHistory (historyInit D) = 0)"
  by (auto simp add: checksEnabled_def blength_def historyInit_def Let_def HISTORY_LIMIT_def
        Suc_le_eq)

theorem checks_enabled_iff_witness:
  "\<not> DEBUG ((sampleDbg (\<lambda>a. 0))\<lparr>aBreakExec := \<lparr>tag = ''exec'',
       entries = [newAddr (sampleDbg (\<lambda>a. 0)) 0x100 (Some 0) None None None None]\<rparr>\<rparr>) \<and>
   checksEnabled ((sampleDbg (\<lambda>a. 0))\<lparr>aBreakExec := \<lparr>tag = ''exec'',
       entries = [newAddr (sampleDbg (\<lambda>a. 0)) 0x100 (Some 0) None None None None]\<rparr>\<rparr>) False \<and>
   length (aOpcodeHistory (historyInit ((sampleDbg (\<lambda>a. 0))\<lparr>aBreakExec := \<lparr>tag = ''exec'',
       entries = [newAddr (sampleDbg (\<lambda>a. 0)) 0x100 (Some 0) None None None None]\<rparr>\<rparr>)))
     = HISTORY_LIMIT \<and>
   \<not> DEBUG (sampleDbg (\<lambda>a. 0)) \<and>
   \<not> checksEnabled (sampleDbg (\<lambda>a. 0)) False \<and>
   aOpcodeHistory (historyInit (sampleDbg (\<lambda>a. 0))) = []"
proof -
  let ?D0 = "sampleDbg (\<lambda>a. 0)"
  let ?D1 = "?D0\<lparr>aBreakExec := \<lparr>tag = ''exec'',
       entries = [newAddr ?D0 0x100 (Some 0) None None None None]\<rparr>\<rparr>"
  have r: "\<not> DEBUG ?D1" "\<not> DEBUG ?D0" "aOpcodeHistory ?D1 = []"
    "length (entries (aBreakExec ?D1)) \<ge> 1"
    "\<not> (length (entries (aBreakExec ?D0)) \<ge> 1 \<or> messageEnabled ?D0 (MessagesINT ?D0))"
    by (simp_all add: sampleDbg_def)
  from checks_enabled_iff [of ?D1 False] checks_enabled_iff [of ?D0 False] r
  show ?thesis by simp
qed

subsection \<open>Expression evaluation\<close>


text \<open>
  C6 fails on the code at the expression \<open>8/0-1|2\<close>, for every \<open>parseValue\<close> that
  reads the four literals as the numbers they are: \<open>evalExpression\<close> reports the
  failure of the division (and \<open>8/0\<close> alone has no value), but \<open>parseExpression\<close>
  does not look at that report inside its loop and goes on with the stacks as the
  failed call left them; the expression gets the value 3.
\<close>

theorem division_by_zero_yields_value:
  assumes "pv ''8'' = Some 8" "pv ''0'' = Some 0" "pv ''1'' = Some 1" "pv ''2'' = Some 2"
  shows "fst (evalExpression [0, 8] ''/'' (Some 1)) = False \<and>
         parseExpression pv ''8/0'' = None \<and>
         parseExpression pv ''8/0-1|2'' = Some 3"
  using assms
  by (simp add: parseExpression_def evalExpression_def precLess_def aBinOpPrecedence_def
      binop_def isBinOp_def str_trim_def isSpace_def js_or_def)

theorem division_by_zero_yields_value_witness:
  "parseHex ''8'' = Some 8 \<and> parseHex ''0'' = Some 0 \<and> parseHex ''1'' = Some 1 \<and>
   parseHex ''2'' = Some 2 \<and> parseExpression parseHex ''8/0-1|2'' = Some 3"
proof -
  have h: "parseHex ''8'' = Some 8" "parseHex ''0'' = Some 0" "parseHex ''1'' = Some 1"
    "parseHex ''2'' = Some 2"
    by (simp_all add: parseHex_def toInt32_def)
  from division_by_zero_yields_value [OF h] h show ?thesis by simp
qed






subsection \<open>Breakpoints\<close>

lemma getAddr_sel: "sel (snd (getAddr D d w n)) = sel d"
  by (simp add: getAddr_def Let_def split: option.splits)


lemma entries_setEntries: "entries (getBreak (setEntries D k es) k) = es"
  by (cases k) (simp_all add: getBreak_def setEntries_def)

lemma getBreak_nSuppress: "getBreak (D\<lparr>nSuppressBreaks := n\<rparr>) k = getBreak D k"
  by (cases k) (simp_all add: getBreak_def)

lemma getBreak_busBreaks: "getBreak (D\<lparr>busBreaks := b\<rparr>) k = getBreak D k"
  by (cases k) (simp_all add: getBreak_def)

lemma findBreakpoint_keep_snd:
  "snd (snd (findBreakpoint D k d False)) = snd (getAddr D d False 0)"
  by (simp add: findBreakpoint_def case_prod_beta Let_def)




text \<open>
  The guard of \<open>addBreakpoint\<close> is the truthiness test \<open>if (dbgAddr.addr)\<close>: the selector
  of an added temporary breakpoint is cleared exactly when \<open>addr\<close> holds a number other
  than 0, which includes the sentinel.
\<close>

lemma addBreakpoint_temp_guard:
  assumes "addBreakpoint D k d True = (True, D', d')"
  shows "sel d' = (if addr d' \<noteq> None \<and> addr d' \<noteq> Some 0 then None else sel d)"
  using assms
  by (auto simp add: addBreakpoint_def case_prod_beta Let_def
        findBreakpoint_keep_snd getAddr_sel split: if_splits)

text \<open>
  C8 fails on the code for a temporary breakpoint whose address resolves to the
  invalid sentinel: on the protected-mode machine, selector 0 is in ES and its segment
  admits no access.  The first \<open>addBreakpoint\<close> stores the entry with the sentinel as
  linear address and, since the sentinel is a number other than 0, with the selector
  cleared; the second call with the same selector and offset compares selectors,
  finds no match, and stores a second entry.
\<close>

theorem duplicate_temp_breakpoint:
  "(let D = sampleProtDbg (\<lambda>a. 0);
        d = newAddr D 0 (Some 0) None None None None;
        (ok1, D1, d1) = addBreakpoint D Exec d True;
        (ok2, D2, d2) = addBreakpoint D1 Exec d True
    in ok1 \<and> ok2 \<and> length (entries (aBreakExec D1)) = 1 \<and> length (entries (aBreakExec D2)) = 2
       \<and> entries (aBreakExec D2) = [d1, d1])"
  by code_simp

text \<open>
  In every other case the second \<open>addBreakpoint\<close> is rejected.  Address resolution
  depends only on the machine, which \<open>addBreakpoint\<close> leaves alone, and a rescan of the
  list extended by the new entry finds that entry.
\<close>

lemma getSegment_same:
  assumes "sameMachine D D'" shows "getSegment D' s f = getSegment D s f"
  using assms by (simp add: sameMachine_def getSegment_def getProtMode_def Let_def)

lemma getAddr_same:
  assumes "sameMachine D D'" shows "getAddr D' e w n = getAddr D e w n"
  unfolding getAddr_def getSegment_same [OF assms] by (rule refl)

lemma mapBreakpoint_same:
  assumes "sameMachine D D'" shows "mapBreakpoint D' a = mapBreakpoint D a"
  using assms by (simp add: sameMachine_def mapBreakpoint_def)

lemma findScan_same:
  assumes "sameMachine D D'" shows "findScan D' r a d es = findScan D r a d es"
  by (induction es)
     (auto simp add: getAddr_same [OF assms] mapBreakpoint_same [OF assms] Let_def
           split: prod.splits)

lemma getAddr_again: "getAddr D (snd (getAddr D e w n)) w n = getAddr D e w n"
  by (simp add: getAddr_def Let_def split: option.splits)

lemma js_and_nonneg: "0 \<le> js_and a 0xfffff"
proof -
  have "(word_of_int a :: 32 word) AND 0xfffff \<le> 0xfffff" by (rule word_and_le1)
  then have "uint ((word_of_int a :: 32 word) AND 0xfffff) \<le> 0xfffff"
    by (simp add: word_le_def)
  then have "sint ((word_of_int a :: 32 word) AND 0xfffff) = uint ((word_of_int a :: 32 word) AND 0xfffff)"
    by (simp add: sint_uint signed_take_bit_eq_if_positive bit_iff_odd take_bit_int_eq_self)
  then show ?thesis by (simp add: js_and_def)
qed

lemma mapBreakpoint_invalid_iff: "mapBreakpoint D a = ADDR_INVALID \<longleftrightarrow> a = ADDR_INVALID"
  using js_and_nonneg [of a] by (auto simp add: mapBreakpoint_def Let_def ADDR_INVALID_def)


lemma findScan_miss_then:
  assumes "\<not> fst (findScan D False a d es)"
  shows "findScan D False a d (snd (findScan D False a d es) @ [e]) =
         ((if a \<noteq> ADDR_INVALID then a = mapBreakpoint D (fst (getAddr D e False 0))
           else sel d = sel e \<and> off d = off e),
          snd (findScan D False a d es) @
            [if a \<noteq> ADDR_INVALID then snd (getAddr D e False 0) else e])"
  using assms
proof (induction es)
  case Nil
  show ?case by (simp add: case_prod_beta)
next
  case (Cons x xs)
  from Cons.prems have miss: "\<not> fst (findScan D False a d xs)"
    by (auto simp add: case_prod_beta Let_def split: if_splits)
  from Cons.prems Cons.IH [OF miss] show ?case
    by (auto simp add: case_prod_beta Let_def getAddr_again split: if_splits)
qed

lemma sameMachine_refl_upd:
  "sameMachine D (D\<lparr>busBreaks := b\<rparr>)"
  "sameMachine D (setEntries D k es)"
  "sameMachine D (historyInit D)"
  by (cases k; simp add: sameMachine_def setEntries_def historyInit_def Let_def)+


lemma getAddr_off: "off (snd (getAddr D d w n)) = off d"
  by (simp add: getAddr_def Let_def split: option.splits)

lemma getBreak_historyInit: "getBreak (historyInit D) k = getBreak D k"
  by (cases k) (simp_all add: getBreak_def historyInit_def Let_def)

lemma getAddr_valid_cached:
  "fst (getAddr D e w n) \<noteq> ADDR_INVALID \<Longrightarrow>
   addr (snd (getAddr D e w n)) = Some (fst (getAddr D e w n))"
  by (auto simp add: getAddr_def Let_def split: option.splits)

lemma getAddr_invalid_cached:
  "fst (getAddr D e w n) = ADDR_INVALID \<Longrightarrow>
   addr (snd (getAddr D e w n)) = None \<or> addr (snd (getAddr D e w n)) = Some ADDR_INVALID"
  by (auto simp add: getAddr_def Let_def split: option.splits)

lemma getAddr_of_cached: "addr e = Some x \<Longrightarrow> getAddr D e w n = (x, e)"
  by (simp add: getAddr_def)

lemma getAddr_fTemp_upd:
  "getAddr D (e\<lparr>fTempBreak := t\<rparr>) w n =
   (fst (getAddr D e w n), (snd (getAddr D e w n))\<lparr>fTempBreak := t\<rparr>)"
  by (simp add: getAddr_def Let_def split: option.splits)

lemma sameMachine_nSuppress:
  "sameMachine D D' \<Longrightarrow> sameMachine (D\<lparr>nSuppressBreaks := n\<rparr>) (D'\<lparr>nSuppressBreaks := n\<rparr>)"
  by (simp add: sameMachine_def)

lemma sameMachine_trans: "sameMachine A B \<Longrightarrow> sameMachine B C \<Longrightarrow> sameMachine A C"
  by (simp add: sameMachine_def)

lemma setEntries_fields:
  "cpu (setEntries D k es) = cpu D" "I386 (setEntries D k es) = I386 D"
  "loadReal (setEntries D k es) = loadReal D" "loadProt (setEntries D k es) = loadProt D"
  "nSuppressBreaks (setEntries D k es) = nSuppressBreaks D"
  "maskAddr (setEntries D k es) = maskAddr D"
  "busBreaks (setEntries D k es) = busBreaks D"
  by (cases k; simp add: setEntries_def)+

lemma historyInit_fields:
  "cpu (historyInit D) = cpu D" "I386 (historyInit D) = I386 D"
  "loadReal (historyInit D) = loadReal D" "loadProt (historyInit D) = loadProt D"
  "nSuppressBreaks (historyInit D) = nSuppressBreaks D"
  "maskAddr (historyInit D) = maskAddr D"
  by (simp_all add: historyInit_def Let_def)

lemma addBreakpoint_added:
  assumes "addBreakpoint D k d fTemp = (True, D1, d1)"
  shows "\<not> fst (findScan (D\<lparr>nSuppressBreaks := nSuppressBreaks D + 1\<rparr>) False
                 (mapBreakpoint D (fst (getAddr (D\<lparr>nSuppressBreaks := nSuppressBreaks D + 1\<rparr>) d False 0)))
                 (snd (getAddr (D\<lparr>nSuppressBreaks := nSuppressBreaks D + 1\<rparr>) d False 0))
                 (entries (getBreak D k)))"
    and "d1 = (let dA = snd (getAddr (D\<lparr>nSuppressBreaks := nSuppressBreaks D + 1\<rparr>) d False 0);
                   d3 = (if k \<noteq> Exec
                         then snd (getAddr (D\<lparr>nSuppressBreaks := nSuppressBreaks D + 1\<rparr>)
                                     (dA\<lparr>fTempBreak := fTemp\<rparr>) False 0)
                         else dA\<lparr>fTempBreak := fTemp\<rparr>)
               in if fTemp \<and> addr d3 \<noteq> None \<and> addr d3 \<noteq> Some 0
                  then d3\<lparr>sel := None\<rparr> else d3)"
    and "entries (getBreak D1 k) =
           snd (findScan (D\<lparr>nSuppressBreaks := nSuppressBreaks D + 1\<rparr>) False
                 (mapBreakpoint D (fst (getAddr (D\<lparr>nSuppressBreaks := nSuppressBreaks D + 1\<rparr>) d False 0)))
                 (snd (getAddr (D\<lparr>nSuppressBreaks := nSuppressBreaks D + 1\<rparr>) d False 0))
                 (entries (getBreak D k))) @ [d1]"
    and "sameMachine D D1"
proof -
  let ?DS = "D\<lparr>nSuppressBreaks := nSuppressBreaks D + 1\<rparr>"
  let ?dA = "snd (getAddr ?DS d False 0)"
  let ?a = "mapBreakpoint D (fst (getAddr ?DS d False 0))"
  let ?fs = "findScan ?DS False ?a ?dA (entries (getBreak D k))"
  let ?D2 = "setEntries ?DS k (snd ?fs)"
  let ?d2 = "?dA\<lparr>fTempBreak := fTemp\<rparr>"
  let ?d3 = "if k \<noteq> Exec then snd (getAddr ?DS ?d2 False 0) else ?d2"
  let ?D3 = "if k \<noteq> Exec
             then ?D2\<lparr>busBreaks := busBreaks ?D2 @ [(True, fst (getAddr ?DS ?d2 False 0), k = Write)]\<rparr>
             else ?D2"
  let ?d4 = "if fTemp \<and> addr ?d3 \<noteq> None \<and> addr ?d3 \<noteq> Some 0 then ?d3\<lparr>sel := None\<rparr> else ?d3"
  let ?D4 = "setEntries ?D3 k (entries (getBreak ?D3 k) @ [?d4])"
  let ?D5 = "if \<not> fTemp then historyInit ?D4 else ?D4"
  have ma: "mapBreakpoint ?DS x = mapBreakpoint D x" for x
    by (simp add: mapBreakpoint_def)
  have fb: "findBreakpoint ?DS k d False = (fst ?fs, ?D2, ?dA)"
    by (simp add: findBreakpoint_def case_prod_beta Let_def getBreak_nSuppress ma)
  have sm: "sameMachine ?DS ?D2" by (rule sameMachine_refl_upd)
  have ga: "getAddr (setEntries ?DS k' es') e w n = getAddr ?DS e w n" for k' es' e w n
    by (rule getAddr_same [OF sameMachine_refl_upd(2)])
  have unfolded: "addBreakpoint D k d fTemp =
      (if \<not> fst ?fs then (True, ?D5\<lparr>nSuppressBreaks := nSuppressBreaks ?D5 - 1\<rparr>, ?d4)
       else (False, ?D2\<lparr>nSuppressBreaks := nSuppressBreaks ?D2 - 1\<rparr>, ?dA))"
    unfolding addBreakpoint_def fb Let_def
    by (cases fTemp; cases k; simp add: ga case_prod_beta)
  from assms unfolded show miss: "\<not> fst ?fs" by (simp split: if_splits)
  from assms unfolded miss have D1: "D1 = ?D5\<lparr>nSuppressBreaks := nSuppressBreaks ?D5 - 1\<rparr>"
    and d1: "d1 = ?d4" by simp_all
  from d1 show "d1 = (let dA = ?dA;
                   d3 = (if k \<noteq> Exec then snd (getAddr ?DS (dA\<lparr>fTempBreak := fTemp\<rparr>) False 0)
                         else dA\<lparr>fTempBreak := fTemp\<rparr>)
               in if fTemp \<and> addr d3 \<noteq> None \<and> addr d3 \<noteq> Some 0
                  then d3\<lparr>sel := None\<rparr> else d3)"
    by (simp add: Let_def)
  have e3: "entries (getBreak ?D3 k) = snd ?fs"
    by (cases "k = Exec") (simp_all add: getBreak_busBreaks entries_setEntries)
  have e4: "entries (getBreak ?D4 k) = snd ?fs @ [?d4]"
    unfolding entries_setEntries e3 by (rule refl)
  have h5: "getBreak (if c then historyInit X else X) k = getBreak X k" for c X
    by (simp add: getBreak_historyInit)
  have e5: "entries (getBreak ?D5 k) = snd ?fs @ [?d4]"
    unfolding h5 by (rule e4)
  show "entries (getBreak D1 k) = snd ?fs @ [d1]"
    unfolding D1 d1 getBreak_nSuppress by (rule e5)
  show "sameMachine D D1"
    unfolding D1
    by (cases fTemp; cases "k = Exec";
        simp add: sameMachine_def historyInit_fields setEntries_fields)
qed

text \<open>
  After a successful \<open>addBreakpoint\<close>, another one for the same address fails and
  leaves the list as it is, except when the first was temporary, had a selector, and
  resolved to the invalid sentinel.
\<close>

lemma second_add_rejected:
  assumes first: "addBreakpoint D k d fTemp = (True, D1, d1)"
      and ok: "\<not> (fTemp \<and> sel d \<noteq> None \<and> addr d1 = Some ADDR_INVALID)"
  shows "\<not> fst (addBreakpoint D1 k d fTemp') \<and>
         entries (getBreak (fst (snd (addBreakpoint D1 k d fTemp'))) k) = entries (getBreak D1 k)"
proof -
  let ?DS = "D\<lparr>nSuppressBreaks := nSuppressBreaks D + 1\<rparr>"
  let ?DS1 = "D1\<lparr>nSuppressBreaks := nSuppressBreaks D1 + 1\<rparr>"
  let ?lin = "fst (getAddr ?DS d False 0)"
  let ?dA = "snd (getAddr ?DS d False 0)"
  let ?a = "mapBreakpoint D ?lin"
  let ?esA = "snd (findScan ?DS False ?a ?dA (entries (getBreak D k)))"
  note fc = addBreakpoint_added [OF first]
  have sm: "sameMachine ?DS ?DS1"
    using fc(4) by (simp add: sameMachine_def)
  have ma: "mapBreakpoint ?DS x = mapBreakpoint D x" for x
    by (simp add: mapBreakpoint_def)
  have gA: "getAddr ?DS ?dA False 0 = (?lin, ?dA)"
    by (simp add: getAddr_again)
  have F1: "getAddr ?DS (?dA\<lparr>fTempBreak := t\<rparr>) False 0 = (?lin, ?dA\<lparr>fTempBreak := t\<rparr>)" for t
    by (simp add: getAddr_fTemp_upd gA)
  have d1: "d1 = (if fTemp \<and> addr ?dA \<noteq> None \<and> addr ?dA \<noteq> Some 0
                  then ?dA\<lparr>fTempBreak := fTemp, sel := None\<rparr> else ?dA\<lparr>fTempBreak := fTemp\<rparr>)"
  proof -
    have d3: "(if k \<noteq> Exec then snd (getAddr ?DS (?dA\<lparr>fTempBreak := fTemp\<rparr>) False 0)
               else ?dA\<lparr>fTempBreak := fTemp\<rparr>) = ?dA\<lparr>fTempBreak := fTemp\<rparr>"
      by (simp add: F1)
    have ad: "addr (?dA\<lparr>fTempBreak := fTemp\<rparr>) = addr ?dA" by simp
    show ?thesis
      using fc(2) unfolding Let_def d3 ad .
  qed
  have cached: "addr ?dA = Some x \<Longrightarrow> x = ?lin" for x
  proof -
    assume "addr ?dA = Some x"
    then have "getAddr ?DS ?dA False 0 = (x, ?dA)" by (rule getAddr_of_cached)
    then have "(x, ?dA) = (?lin, ?dA)" using gA by (rule trans [OF sym])
    then show "x = ?lin" by (rule Pair_inject)
  qed
  have F2: "getAddr ?DS d1 False 0 = (?lin, d1)"
  proof (cases "addr ?dA")
    case None
    then show ?thesis by (simp add: d1 F1)
  next
    case (Some x)
    with cached have "x = ?lin" by simp
    with Some show ?thesis by (simp add: d1 getAddr_of_cached)
  qed
  have inv: "?a = ADDR_INVALID \<Longrightarrow> addr ?dA = None \<or> addr ?dA = Some ADDR_INVALID"
    by (simp add: mapBreakpoint_invalid_iff getAddr_invalid_cached)
  have hit: "(if ?a \<noteq> ADDR_INVALID then ?a = mapBreakpoint ?DS (fst (getAddr ?DS d1 False 0))
              else sel ?dA = sel d1 \<and> off ?dA = off d1)"
  proof (cases "?a = ADDR_INVALID")
    case False
    then show ?thesis by (simp add: F2 ma)
  next
    case True
    from inv [OF True] ok True show ?thesis
      by (auto simp add: d1 getAddr_sel)
  qed
  have upd: "(if ?a \<noteq> ADDR_INVALID then snd (getAddr ?DS d1 False 0) else d1) = d1"
    by (simp add: F2)
  have scan: "findScan ?DS False ?a ?dA (entries (getBreak D1 k)) = (True, entries (getBreak D1 k))"
    unfolding fc(3) findScan_miss_then [OF fc(1)] using hit upd by simp
  have fb: "findBreakpoint ?DS1 k d False = (True, setEntries ?DS1 k (entries (getBreak D1 k)), ?dA)"
    unfolding findBreakpoint_def getAddr_same [OF sm] mapBreakpoint_same [OF sm] findScan_same [OF sm]
      getBreak_nSuppress ma Let_def case_prod_beta scan
    by simp
  show ?thesis
    unfolding addBreakpoint_def fb Let_def
    by (simp add: getBreak_nSuppress entries_setEntries)
qed

lemma byteScan_iff:
  "byteScan a nb addrBreak n \<longleftrightarrow> (\<exists>k. n + 2 * int k < nb \<and> addrBreak + int k = a + n + 2 * int k)"
proof (induction a nb addrBreak n rule: byteScan.induct)
  case (1 a nb addrBreak n)
  show ?case
  proof (cases "n < nb")
    case False
    then have "\<not> byteScan a nb addrBreak n" by (subst byteScan.simps) simp
    moreover from False have "\<not> (\<exists>k. n + 2 * int k < nb \<and> addrBreak + int k = a + n + 2 * int k)"
      by auto
    ultimately show ?thesis by blast
  next
    case True
    show ?thesis
    proof (cases "a + n = addrBreak")
      case hit: True
      with True have "byteScan a nb addrBreak n" by (subst byteScan.simps) simp
      moreover from True hit have "n + 2 * int 0 < nb \<and> addrBreak + int 0 = a + n + 2 * int 0"
        by simp
      ultimately show ?thesis by blast
    next
      case miss: False
      with True have eq: "byteScan a nb addrBreak n = byteScan a nb (addrBreak + 1) (n + 1 + 1)"
        by (subst byteScan.simps) simp
      have ih: "byteScan a nb (addrBreak + 1) (n + 1 + 1) \<longleftrightarrow>
          (\<exists>k. n + 1 + 1 + 2 * int k < nb \<and> addrBreak + 1 + int k = a + (n + 1 + 1) + 2 * int k)"
        using 1 True miss by simp
      have "(\<exists>k. n + 1 + 1 + 2 * int k < nb \<and> addrBreak + 1 + int k = a + (n + 1 + 1) + 2 * int k)
          \<longleftrightarrow> (\<exists>k. n + 2 * int k < nb \<and> addrBreak + int k = a + n + 2 * int k)" (is "?L \<longleftrightarrow> ?R")
      proof
        assume ?L
        then obtain k where "n + 1 + 1 + 2 * int k < nb" "addrBreak + 1 + int k = a + (n + 1 + 1) + 2 * int k"
          by blast
        then have "n + 2 * int (Suc k) < nb \<and> addrBreak + int (Suc k) = a + n + 2 * int (Suc k)"
          by simp
        then show ?R by blast
      next
        assume ?R
        then obtain k where k: "n + 2 * int k < nb" "addrBreak + int k = a + n + 2 * int k"
          by blast
        with miss have "k \<noteq> 0" by (cases k) auto
        then obtain j where "k = Suc j" by (cases k) auto
        with k have "n + 1 + 1 + 2 * int j < nb \<and> addrBreak + 1 + int j = a + (n + 1 + 1) + 2 * int j"
          by simp
        then show ?L by blast
      qed
      with eq ih show ?thesis by simp
    qed
  qed
qed

lemma byteScan_positions:
  "byteScan a nb addrBreak 0 \<longleftrightarrow> (\<exists>k. 2 * int k < nb \<and> addrBreak = a + int k)"
  using byteScan_iff [of a nb addrBreak 0] by auto

lemma hitScan_iff:
  "fst (hitScan D a nb es) \<noteq> None \<longleftrightarrow> (\<exists>e\<in>set es. byteScan a nb (breakAddr D e) 0)"
proof (induction es)
  case Nil
  show ?case by simp
next
  case (Cons e es)
  show ?case
  proof (cases "byteScan a nb (breakAddr D e) 0")
    case True
    then show ?thesis
      by (simp add: breakAddr_def case_prod_beta Let_def )
  next
    case False
    with Cons show ?thesis
      by (simp add: breakAddr_def case_prod_beta Let_def )
  qed
qed

text \<open>
  What the scan of \<open>checkBreakpoint\<close> detects when breakpoints are not suppressed and
  INT3 detection is off: a breakpoint at position \<open>j\<close> of the accessed range is found
  exactly when \<open>2 * j < nb\<close>.
\<close>

lemma checkBreakpoint_iff:
  assumes "nSuppressBreaks D = 0"
    and "\<not> messageEnabled D (js_or (MessagesINT D) (MessagesHALT D))"
  shows "fst (checkBreakpoint D a nb k fTemp) \<longleftrightarrow>
         (\<exists>e\<in>set (entries (getBreak D k)). \<exists>j. 2 * int j < nb \<and>
             breakAddr (D\<lparr>nSuppressBreaks := 1\<rparr>) e = mapBreakpoint D a + int j)"
proof -
  let ?D1 = "D\<lparr>nSuppressBreaks := nSuppressBreaks D + 1\<rparr>"
  have g: "getBreak (D\<lparr>nSuppressBreaks := n\<rparr>) k = getBreak D k" for n
    by (cases k) (simp_all add: getBreak_def)
  have m: "mapBreakpoint (D\<lparr>nSuppressBreaks := n\<rparr>) a = mapBreakpoint D a" for n
    by (simp add: mapBreakpoint_def)
  have "fst (checkBreakpoint D a nb k fTemp) \<longleftrightarrow>
        fst (hitScan ?D1 (mapBreakpoint ?D1 a) nb (entries (getBreak ?D1 k))) \<noteq> None"
    using assms
    by (auto simp add: checkBreakpoint_def case_prod_beta Let_def split: option.splits)
  also have "\<dots> \<longleftrightarrow> (\<exists>e\<in>set (entries (getBreak ?D1 k)).
                 byteScan (mapBreakpoint ?D1 a) nb (breakAddr ?D1 e) 0)"
    by (rule hitScan_iff)
  also have "\<dots> \<longleftrightarrow> (\<exists>e\<in>set (entries (getBreak D k)). \<exists>j. 2 * int j < nb \<and>
             breakAddr (D\<lparr>nSuppressBreaks := 1\<rparr>) e = mapBreakpoint D a + int j)"
    using assms(1) by (simp add: g m byteScan_positions)
  finally show ?thesis .
qed

text \<open>
  C2 fails on the code: with a read breakpoint at 0:1001 of the sample machine (linear
  address 0x1001), no suppression and no INT3 detection, a 1-byte access at 0x1001 is
  reported, but the 2-byte access at 0x1000 and the 4-byte access at 0x0FFF, which both
  cover 0x1001, are not: the inner loop advances \<open>n\<close> twice per iteration.
\<close>

theorem checkBreakpoint_misses_bytes:
  "(let D = sampleDbg (\<lambda>a. 0);
        d = newAddr D 0x1001 (Some 0) None None None None;
        (ok, D1, d1) = addBreakpoint D Read d False
    in ok \<and> nSuppressBreaks D1 = 0
       \<and> \<not> messageEnabled D1 (js_or (MessagesINT D1) (MessagesHALT D1))
       \<and> fst (getAddr D1 d False 1) = 0x1001
       \<and> fst (checkBreakpoint D1 0x1001 1 Read False)
       \<and> \<not> fst (checkBreakpoint D1 0x1000 2 Read False)
       \<and> \<not> fst (checkBreakpoint D1 0x0FFF 4 Read False))"
  by code_simp


end
